theory Spec2Isabelle
  imports Main
begin

section \<open>JavaScript values read by the orchestrator\<close>

text \<open>
  Identifiers and other loosely typed JSON fields are kept as a small tagged union, so
  that the truthiness tests of the source (\<^verbatim>\<open>if (!vidId)\<close>, \<^verbatim>\<open>a || b\<close>) and its strict
  equality \<^verbatim>\<open>===\<close> (structural equality here) are branches of the model. Numbers are
  the integers (JSON ids and ports); \<^verbatim>\<open>NaN\<close> and fractions do not occur in them.
\<close>

datatype jsval = Undefined | Null | Bool bool | Num int | Str string

fun truthy :: "jsval \<Rightarrow> bool" where
  "truthy Undefined = False"
| "truthy Null = False"
| "truthy (Bool b) = b"
| "truthy (Num n) = (n \<noteq> 0)"
| "truthy (Str s) = (s \<noteq> [])"

text \<open>\<^verbatim>\<open>a || b\<close> on values.\<close>

definition js_or :: "jsval \<Rightarrow> jsval \<Rightarrow> jsval" where
  "js_or a b = (if truthy a then a else b)"

text \<open>\<^verbatim>\<open>xs.find(p)\<close>: the first element satisfying \<open>p\<close>, or \<^verbatim>\<open>undefined\<close>.\<close>

fun find_first :: "('a \<Rightarrow> bool) \<Rightarrow> 'a list \<Rightarrow> 'a option" where
  "find_first p [] = None"
| "find_first p (x # xs) = (if p x then Some x else find_first p xs)"

section \<open>Strings: decimal numerals, whitespace\<close>

text \<open>
  A text is the list of its UTF-16 code units, and a \<open>char\<close> stands for the code unit of
  the same number: the texts of the model are those whose code units are below 256.
\<close>

definition is_digit :: "char \<Rightarrow> bool" where
  "is_digit c = (c \<in> set ''0123456789'')"

definition digit_val :: "char \<Rightarrow> nat" where
  "digit_val c = of_char c - 48"

text \<open>
  A number read from a run of digits. \<^verbatim>\<open>parseInt\<close> answers a double: up to
  \<^verbatim>\<open>Number.MAX_SAFE_INTEGER\<close> = \<^verbatim>\<open>2^53\<close> - 1 that is the number written (\<open>Exact\<close>); above, it
  is the double nearest to the number written, which is at least \<^verbatim>\<open>2^53\<close> and whose value
  and decimal text are not computed here (\<open>Rounded\<close>, with the digits read).
\<close>

datatype portnum = Exact nat | Rounded string

definition digits_val :: "string \<Rightarrow> nat" where
  "digits_val ds = foldl (\<lambda>n c. 10 * n + digit_val c) 0 ds"

text \<open>\<^verbatim>\<open>parseInt(ds, 10)\<close> on a non-empty run of decimal digits.\<close>

definition parseInt :: "string \<Rightarrow> portnum" where
  "parseInt ds = (if digits_val ds \<le> 9007199254740991 then Exact (digits_val ds) else Rounded ds)"

text \<open>The decimal text a template literal \<^verbatim>\<open>${port}\<close> produces for a natural number.\<close>

fun decimal :: "nat \<Rightarrow> string" where
  "decimal n =
     (if n < 10 then [''0123456789'' ! n]
      else decimal (n div 10) @ [''0123456789'' ! (n mod 10)])"

declare decimal.simps [simp del]

text \<open>
  What \<^verbatim>\<open>String.prototype.trim\<close> removes, among the code units below 256: the white space
  U+0009, U+000B, U+000C, U+0020, U+00A0 and the line terminators U+000A, U+000D.
\<close>

definition is_space :: "char \<Rightarrow> bool" where
  "is_space c = (of_char c \<in> {9, 10, 11, 12, 13, 32, 160 :: nat})"

definition trim :: "string \<Rightarrow> string" where
  "trim s = rev (dropWhile is_space (rev (dropWhile is_space s)))"

section \<open>utils/tellyoUtils.js: the stream URL of a Tellyo channel payload\<close>

definition PORT_MIN :: nat where
  "PORT_MIN = 10006"

definition PORT_MAX :: nat where
  "PORT_MAX = 10100"

text \<open>
  A Tellyo channel as the listing returns it. \<open>ch_name\<close> and \<open>ch_streamUrl\<close> are \<open>None\<close>
  when the field is missing or not a string.
\<close>

record channel =
  ch_id :: jsval
  ch_name :: "string option"
  ch_streamUrl :: "string option"

text \<open>
  The regular expression \<^verbatim>\<open>/:(\d+)(?:$|[/?])/\<close> tried right after a colon: the digit run
  is greedy, and what follows it must be the end of the text, a slash or a question mark
  (a shorter run would be followed by a digit, so backtracking never succeeds).
\<close>

definition match_port :: "string \<Rightarrow> portnum option" where
  "match_port s =
     (let ds = takeWhile is_digit s; rest = dropWhile is_digit s
      in if ds \<noteq> [] \<and> (case rest of [] \<Rightarrow> True | c # _ \<Rightarrow> c = CHR ''/'' \<or> c = CHR ''?'')
         then Some (parseInt ds) else None)"

text \<open>\<^verbatim>\<open>url.match(...)\<close>: the leftmost colon at which the pattern matches.\<close>

fun scan_port :: "string \<Rightarrow> portnum option" where
  "scan_port [] = None"
| "scan_port (c # cs) =
     (if c = CHR '':''
      then (case match_port cs of Some p \<Rightarrow> Some p | None \<Rightarrow> scan_port cs)
      else scan_port cs)"

text \<open>
  \<^verbatim>\<open>extractPort(url)\<close>: \<^verbatim>\<open>null\<close> (here \<open>None\<close>) for a missing, non-string or empty url and
  when the pattern does not match.
\<close>

definition extractPort :: "string option \<Rightarrow> portnum option" where
  "extractPort url =
     (case url of
        None \<Rightarrow> None
      | Some u \<Rightarrow> if u = [] then None else scan_port u)"

definition srtUrl :: "string \<Rightarrow> nat \<Rightarrow> string" where
  "srtUrl ip port = ''srt://'' @ ip @ '':'' @ decimal port"

text \<open>
  Step 1 of \<^verbatim>\<open>getSrtUrl\<close>: the port of the channel being edited, when it can be kept
  (\<^verbatim>\<open>if (existingPort)\<close>: every number but 0).
\<close>

definition existingPort :: "channel list \<Rightarrow> jsval \<Rightarrow> portnum option" where
  "existingPort existingChannels currentChannelId =
     (if truthy currentChannelId
      then (case find_first (\<lambda>c. ch_id c = currentChannelId) existingChannels of
              None \<Rightarrow> None
            | Some currentChannel \<Rightarrow>
                (case ch_streamUrl currentChannel of
                   None \<Rightarrow> None
                 | Some u \<Rightarrow>
                     if u \<noteq> []
                     then (case extractPort (Some u) of
                             None \<Rightarrow> None
                           | Some (Exact p) \<Rightarrow> if p \<noteq> 0 then Some (Exact p) else None
                           | Some (Rounded ds) \<Rightarrow> Some (Rounded ds))
                     else None))
      else None)"

text \<open>
  Step 2: the ports in use, filtered by \<^verbatim>\<open>p !== null && p >= PORT_MIN && p < PORT_MAX\<close>. A
  rounded number is at least \<^verbatim>\<open>2^53\<close> and does not pass.
\<close>

definition usedPorts :: "channel list \<Rightarrow> nat list" where
  "usedPorts existingChannels =
     filter (\<lambda>p. p \<ge> PORT_MIN \<and> p < PORT_MAX)
       (concat (map (\<lambda>c. case extractPort (ch_streamUrl c) of
                           None \<Rightarrow> []
                         | Some (Exact p) \<Rightarrow> [p]
                         | Some (Rounded ds) \<Rightarrow> [])
          existingChannels))"

text \<open>\<^verbatim>\<open>usedPorts.length > 0 ? Math.max(...usedPorts) + 1 : PORT_MIN\<close>.\<close>

definition nextPort :: "channel list \<Rightarrow> nat" where
  "nextPort existingChannels =
     (let used = usedPorts existingChannels
      in if length used > 0 then fold max used 0 + 1 else PORT_MIN)"

text \<open>The closing test of \<^verbatim>\<open>getSrtUrl\<close>: a port above \<^verbatim>\<open>PORT_MAX\<close> wraps to \<^verbatim>\<open>PORT_MIN\<close>.\<close>

definition wrapPort :: "nat \<Rightarrow> nat" where
  "wrapPort p = (if p > PORT_MAX then PORT_MIN else p)"

text \<open>
  A stream url: a text, or \<^verbatim>\<open>`srt://${videonIp}:${existingPort}`\<close> for a rounded number, whose
  decimal text is the runtime's.
\<close>

datatype surl = Url string | UrlRounded string string

definition getSrtUrl :: "string \<Rightarrow> channel list \<Rightarrow> jsval \<Rightarrow> surl" where
  "getSrtUrl videonIp existingChannels currentChannelId =
     (if videonIp = [] then Url []
      else (case existingPort existingChannels currentChannelId of
              Some (Exact p) \<Rightarrow> Url (srtUrl videonIp p)
            | Some (Rounded ds) \<Rightarrow> UrlRounded videonIp ds
            | None \<Rightarrow> Url (srtUrl videonIp (wrapPort (nextPort existingChannels)))))"

text \<open>
  The Tellyo part of a profile (\<^verbatim>\<open>config\<close> of \<^verbatim>\<open>buildTellyoChannelPayload\<close>). A missing
  string field is the empty string, which the source treats alike (\<^verbatim>\<open>!config.profile\<close>,
  \<^verbatim>\<open>!finalStreamUrl\<close>, \<^verbatim>\<open>telConfig.channelName || ...\<close>); a profile without a Tellyo
  part is the record of empty fields.
\<close>

record tellyo_config =
  t_channelName :: string
  t_profile :: string
  t_streamUrl :: string
  t_lastChannelId :: jsval
  t_lastStreamUrl :: "string option"

text \<open>
  The payload sent to Tellyo. The chunk length and the recording start time of the source
  are computed from the configuration alone and read by nothing modelled here; they are
  left out.
\<close>

record tellyo_payload =
  tp_name :: string
  tp_profile :: string
  tp_streamUrl :: surl

definition buildTellyoChannelPayload ::
  "tellyo_config \<Rightarrow> string \<Rightarrow> channel list \<Rightarrow> jsval \<Rightarrow> string + tellyo_payload" where
  "buildTellyoChannelPayload config videonIp existingChannels channelId =
     (if t_profile config = []
      then Inl ''Tellyo Profile Name is required. Please set it in the Inputs profile.''
      else
        let finalStreamUrl =
              (if t_streamUrl config = [] \<or> trim (t_streamUrl config) = []
               then getSrtUrl videonIp existingChannels channelId
               else Url (t_streamUrl config))
        in Inr \<lparr>tp_name = t_channelName config, tp_profile = t_profile config,
                 tp_streamUrl = finalStreamUrl\<rparr>)"

section \<open>components/Detail.jsx: the confirmation poller\<close>

definition OUTPUT_CONFIRM_DELAYS :: "nat list" where
  "OUTPUT_CONFIRM_DELAYS = [300, 600, 1200]"

text \<open>
  The poller runs against a device world \<open>'w\<close>: \<open>slp d\<close> is \<^verbatim>\<open>await sleep(d)\<close>, and \<open>fetch\<close>
  is \<^verbatim>\<open>parseOutputs\<close> of \<^verbatim>\<open>API.deviceShadows\<close> (which never rejects: it falls back to
  demonstration data). The result \<^verbatim>\<open>{ ok, outs }\<close> is kept with the trace of every suspension
  in order.
\<close>

datatype event = Sleep nat | Fetch

record 's confirmation =
  cf_ok :: bool
  cf_outs :: 's
  cf_trace :: "event list"

fun confirmLoop ::
  "(nat \<Rightarrow> 'w \<Rightarrow> 'w) \<Rightarrow> ('w \<Rightarrow> 's \<times> 'w) \<Rightarrow> ('s \<Rightarrow> bool) \<Rightarrow> nat list \<Rightarrow> event list \<Rightarrow> 'w
     \<Rightarrow> 's confirmation \<times> 'w" where
  "confirmLoop slp fetch check [] tr w =
     (case fetch w of
        (finalOuts, w') \<Rightarrow> (\<lparr>cf_ok = check finalOuts, cf_outs = finalOuts, cf_trace = tr @ [Fetch]\<rparr>, w'))"
| "confirmLoop slp fetch check (delay # delays) tr w =
     (case fetch (slp delay w) of
        (outs1, w') \<Rightarrow>
          if check outs1 then (\<lparr>cf_ok = True, cf_outs = outs1, cf_trace = tr @ [Sleep delay, Fetch]\<rparr>, w')
          else confirmLoop slp fetch check delays (tr @ [Sleep delay, Fetch]) w')"

definition confirmOutputsState ::
  "(nat \<Rightarrow> 'w \<Rightarrow> 'w) \<Rightarrow> ('w \<Rightarrow> 's \<times> 'w) \<Rightarrow> ('s \<Rightarrow> bool) \<Rightarrow> 'w \<Rightarrow> 's confirmation \<times> 'w" where
  "confirmOutputsState slp fetch check w = confirmLoop slp fetch check OUTPUT_CONFIRM_DELAYS [] w"

section \<open>Device shadows\<close>

text \<open>
  The \<^verbatim>\<open>config\<close> object of a shadow entry, with the fields the detail view reads or
  writes. A field that the source only compares with \<^verbatim>\<open>===\<close> is an option (\<open>None\<close> when it
  is missing or of another type); a field that it tests for truthiness, passes through
  \<^verbatim>\<open>||\<close> or uses as a property key is a value. The codec, bitrate and latency settings that
  the orchestrator copies from the profile into a new entry are read by none of its
  decisions and are left out.
\<close>

record config =
  c_name :: jsval
  c_type :: "string option"
  c_enable :: "bool option"
  c_in_channel_id :: jsval
  c_destination_ip :: "string option"
  c_destination_port :: jsval
  c_call_mode :: "string option"
  c_sources_audio :: "jsval list"
  c_sources_video :: "jsval list"

text \<open>
  A shadow entry. \<open>e_ot_value\<close> is \<^verbatim>\<open>output_type?.value\<close> and \<open>e_ot_srt_dest_port\<close> is
  \<^verbatim>\<open>output_type?.srt?.dest_port\<close>; a port is whatever value the device reports (a number,
  or a text such as \<^verbatim>\<open>"10001"\<close>).
\<close>

record entry =
  e_id :: jsval
  e_out_stream_id :: jsval
  e_output_id :: jsval
  e_name :: jsval
  e_type :: "string option"
  e_config :: "config option"
  e_ot_value :: jsval
  e_ot_srt_dest_port :: jsval

definition no_config :: config where
  "no_config = \<lparr>c_name = Undefined, c_type = None, c_enable = None, c_in_channel_id = Undefined,
     c_destination_ip = None, c_destination_port = Undefined, c_call_mode = None,
     c_sources_audio = [], c_sources_video = []\<rparr>"

definition no_entry :: entry where
  "no_entry = \<lparr>e_id = Undefined, e_out_stream_id = Undefined, e_output_id = Undefined,
     e_name = Undefined, e_type = None, e_config = None, e_ot_value = Undefined,
     e_ot_srt_dest_port = Undefined\<rparr>"

text \<open>
  \<^verbatim>\<open>reported.state\<close> of a shadow: missing, \<^verbatim>\<open>null\<close>, an array of entries, or an object of
  entries keyed by arbitrary id, listed in the order \<^verbatim>\<open>Object.values\<close> enumerates it.
\<close>

datatype rstate = Absent | NullState | Arr "entry list" | Obj "(string \<times> entry) list"

record shadow =
  shadow_name :: "string option"
  current_version :: "int option"
  version :: "int option"
  reported_state :: rstate

text \<open>
  What \<^verbatim>\<open>API.deviceShadows\<close> resolves to: \<^verbatim>\<open>{shadows: [...]}\<close>, a bare array, or a
  single unwrapped object. The call never rejects (the API wrapper catches every failure
  and answers with demonstration data).
\<close>

datatype shres = Wrapped "shadow list" | Bare "shadow list" | Single shadow

text \<open>\<^verbatim>\<open>x?.current_version ?? x?.version ?? d\<close>.\<close>

definition versionOr :: "shadow option \<Rightarrow> int \<Rightarrow> int" where
  "versionOr x d =
     (case x of
        None \<Rightarrow> d
      | Some s \<Rightarrow>
          (case current_version s of
             Some v \<Rightarrow> v
           | None \<Rightarrow> (case version s of Some v \<Rightarrow> v | None \<Rightarrow> d)))"

text \<open>
  \<^verbatim>\<open>Array.isArray(state) ? state : Object.values(state)\<close> behind a test of \<^verbatim>\<open>state\<close> for
  truthiness: the empty list for a state that is missing or \<^verbatim>\<open>null\<close>.
\<close>

definition stateItems :: "rstate \<Rightarrow> entry list" where
  "stateItems st =
     (case st of Absent \<Rightarrow> [] | NullState \<Rightarrow> [] | Arr xs \<Rightarrow> xs | Obj kvs \<Rightarrow> map snd kvs)"

section \<open>Profiles and the view's state\<close>

record intent =
  o_name :: string
  o_target :: string
  o_videonId :: jsval
  o_tempPort :: "int option"

record cloudport_config =
  cp_ingestLabel :: string
  cp_lastIngestId :: jsval
  cp_lastStreamUrl :: "string option"
  cp_streamUrl :: "string option"
  cp_alwaysOn :: bool

record profile =
  p_id :: string
  p_name :: string
  p_outputs :: "intent list"
  p_tellyo :: tellyo_config
  p_cloudport :: cloudport_config

record ingest =
  in_id :: jsval
  in_ingest_id :: jsval
  in_label :: string

record cloudport_payload =
  cpp_ingest_label :: string
  cpp_stream_url :: "string option"
  cpp_always_on :: bool

text \<open>
  The calls the view makes on the \<^verbatim>\<open>API\<close> object and its deliberate waits, in the order
  it makes them. \<open>SetDeviceShadows\<close> and \<open>UpdateShadow\<close> carry the shadow name, the target
  version and the new state.
\<close>

datatype call =
    DeviceShadows
  | Wait nat
  | SetDeviceShadows string int "entry list"
  | UpdateShadow string int "entry list"
  | PostOutputs jsval bool
  | PostCommand "string option" string
  | TellyoListChannels
  | TellyoUpdateChannel jsval tellyo_payload
  | TellyoCreateChannel tellyo_payload
  | TellyoDeleteChannel jsval
  | CloudportFetchByLabel string
  | CloudportUpdate jsval cloudport_payload
  | CloudportCreate cloudport_payload
  | CloudportDelete jsval

text \<open>The calls that mutate the device or a downstream registry.\<close>

fun is_write :: "call \<Rightarrow> bool" where
  "is_write DeviceShadows = False"
| "is_write (Wait _) = False"
| "is_write TellyoListChannels = False"
| "is_write (CloudportFetchByLabel _) = False"
| "is_write _ = True"

datatype sstate = Idle | Pending | Success | Failure

record status =
  st_state :: sstate
  st_message :: string

text \<open>A deletion waiting for the operator's confirmation (\<^verbatim>\<open>confirmData\<close>).\<close>

datatype pending_action = DeleteTellyoChannel jsval | DeleteCloudportIngest string

text \<open>
  The state the handlers of the detail view read and change. \<open>calls\<close> is the log of API
  calls, \<open>blocked\<close> counts the invocations of \<^verbatim>\<open>onWriteBlocked\<close>, and \<open>thrown\<close> holds the
  message of an exception that escaped a handler. The timers that clear \<open>op\<close> after two
  seconds and the progress list \<^verbatim>\<open>configSteps\<close> are not part of it.
\<close>

record ui =
  profiles :: "profile list"
  err :: string
  toast :: string
  op :: string
  cloudStatus :: status
  tellyoStatus :: status
  ipModalOpen :: bool
  confirmData :: "pending_action option"
  calls :: "call list"
  blocked :: nat
  thrown :: "string option"

record tellyo_settings =
  ts_apiEndpoint :: string
  ts_token :: string

record cloudport_settings =
  cs_baseHost :: string
  cs_userAuthToken :: string

text \<open>
  The properties of the view: the settings, the selected profile id, the device address
  \<^verbatim>\<open>state?.external_ip || device.ip || device.localIp\<close> as the text a template literal
  prints, and the manual endpoint fields (\<open>manualPort\<close> is \<open>None\<close> for the empty field).
\<close>

record props =
  safeMode :: bool
  bypassVideonError :: bool
  selPid :: string
  deviceIp :: string
  orgGuid :: "string option"
  manualIp :: string
  manualPort :: "int option"
  tellyoSettings :: tellyo_settings
  cloudportSettings :: cloudport_settings

definition setStatus :: "sstate \<Rightarrow> string \<Rightarrow> status" where
  "setStatus s m = \<lparr>st_state = s, st_message = m\<rparr>"

definition log_call :: "call list \<Rightarrow> ui \<Rightarrow> ui" where
  "log_call cs u = u\<lparr>calls := calls u @ cs\<rparr>"

text \<open>\<^verbatim>\<open>if (safeMode) { onWriteBlocked?.(); return; }\<close>\<close>

definition writeBlocked :: "ui \<Rightarrow> ui" where
  "writeBlocked u = u\<lparr>blocked := blocked u + 1\<rparr>"

text \<open>\<^verbatim>\<open>const cur = profiles.find(p => p.id === selPid)\<close>\<close>

definition cur :: "props \<Rightarrow> ui \<Rightarrow> profile option" where
  "cur pr u = find_first (\<lambda>p. p_id p = selPid pr) (profiles u)"

text \<open>\<^verbatim>\<open>setProfiles(prev => prev.map(p => p.id === cur.id ? f(p) : p))\<close>\<close>

definition setProfiles :: "string \<Rightarrow> (profile \<Rightarrow> profile) \<Rightarrow> ui \<Rightarrow> ui" where
  "setProfiles cid f u = u\<lparr>profiles := map (\<lambda>p. if p_id p = cid then f p else p) (profiles u)\<rparr>"

text \<open>The text of an integer in a template literal.\<close>

definition show_int :: "int \<Rightarrow> string" where
  "show_int i = (if i < 0 then CHR ''-'' # decimal (nat (- i)) else decimal (nat i))"

section \<open>handleConfigure: provisional ports\<close>

definition isPlatform :: "intent \<Rightarrow> bool" where
  "isPlatform outp = (o_target outp = ''Tellyo Studio'' \<or> o_target outp = ''Amagi CLOUDPORT'')"

text \<open>
  The first \<^verbatim>\<open>newOutputs.forEach\<close>: every platform intent takes \<^verbatim>\<open>portCounter++\<close>, and a
  port above 10100 throws. \<^verbatim>\<open>newOutputs\<close> is a deep copy of the profile's intents, so
  the exception leaves nothing of the loop behind.
\<close>

fun preAssignPorts :: "int \<Rightarrow> intent list \<Rightarrow> string + intent list" where
  "preAssignPorts portCounter [] = Inr []"
| "preAssignPorts portCounter (outp # rest) =
     (if isPlatform outp
      then (if portCounter > 10100 then Inl ''Port range exhausted (10001-10100)''
            else (case preAssignPorts (portCounter + 1) rest of
                    Inl e \<Rightarrow> Inl e
                  | Inr rest' \<Rightarrow> Inr (outp\<lparr>o_tempPort := Some portCounter\<rparr> # rest')))
      else (case preAssignPorts portCounter rest of
              Inl e \<Rightarrow> Inl e
            | Inr rest' \<Rightarrow> Inr (outp # rest')))"

section \<open>handleConfigure: the device steps\<close>

text \<open>\<^verbatim>\<open>shRes?.shadows || (Array.isArray(shRes) ? shRes : [])\<close>\<close>

definition shadowsOf :: "shres \<Rightarrow> shadow list" where
  "shadowsOf shRes = (case shRes of Wrapped xs \<Rightarrow> xs | Bare xs \<Rightarrow> xs | Single _ \<Rightarrow> [])"

definition getShadow :: "shadow list \<Rightarrow> string \<Rightarrow> shadow option" where
  "getShadow shadows name = find_first (\<lambda>x. shadow_name x = Some name) shadows"

text \<open>
  \<^verbatim>\<open>getItems\<close>, and the same normalisation written out again at the later reads of the
  \<^verbatim>\<open>Encoders\<close> and \<^verbatim>\<open>Outputs\<close> shadows.
\<close>

definition getItems :: "shadow list \<Rightarrow> string \<Rightarrow> entry list" where
  "getItems shadows name =
     (case getShadow shadows name of None \<Rightarrow> [] | Some s \<Rightarrow> stateItems (reported_state s))"

definition profileLabel :: "profile \<Rightarrow> string" where
  "profileLabel c = (if p_name c = [] then ''Profile'' else p_name c)"

definition videoName :: "profile \<Rightarrow> string" where
  "videoName c = profileLabel c @ ''_video''"

definition audioName :: "profile \<Rightarrow> string" where
  "audioName c = profileLabel c @ ''_audio''"

text \<open>\<^verbatim>\<open>e.type === kind || e.config?.type === kind\<close>\<close>

definition hasKind :: "string \<Rightarrow> entry \<Rightarrow> bool" where
  "hasKind kind e =
     (e_type e = Some kind \<or> (case e_config e of None \<Rightarrow> False | Some c \<Rightarrow> c_type c = Some kind))"

text \<open>\<^verbatim>\<open>preVideoIds\<close> and \<^verbatim>\<open>preAudioIds\<close>: the ids of a kind seen before the write.\<close>

definition kindIds :: "string \<Rightarrow> entry list \<Rightarrow> jsval list" where
  "kindIds kind currentEncoders = map e_id (filter (hasKind kind) currentEncoders)"

text \<open>\<^verbatim>\<open>e.config?.name || e.name\<close>\<close>

definition entryName :: "entry \<Rightarrow> jsval" where
  "entryName e = js_or (case e_config e of None \<Rightarrow> Undefined | Some c \<Rightarrow> c_name c) (e_name e)"

definition newEncoder :: "string \<Rightarrow> string \<Rightarrow> jsval \<Rightarrow> entry" where
  "newEncoder kind name inputId =
     no_entry\<lparr>e_type := Some kind,
       e_config := Some (no_config\<lparr>c_name := Str name, c_in_channel_id := inputId\<rparr>)\<rparr>"

definition nextEncoders :: "profile \<Rightarrow> jsval \<Rightarrow> entry list \<Rightarrow> entry list" where
  "nextEncoders c inputId currentEncoders =
     filter (\<lambda>e. entryName e \<noteq> Str (videoName c) \<and> entryName e \<noteq> Str (audioName c)) currentEncoders
     @ [newEncoder ''video'' (videoName c) inputId, newEncoder ''audio'' (audioName c) inputId]"

text \<open>\<^verbatim>\<open>i.config?.name === iName || i.name === iName\<close>\<close>

definition namedAs :: "string \<Rightarrow> entry \<Rightarrow> bool" where
  "namedAs iName i =
     ((case e_config i of None \<Rightarrow> False | Some c \<Rightarrow> c_name c = Str iName) \<or> e_name i = Str iName)"

definition findId2 :: "shadow list \<Rightarrow> string \<Rightarrow> string \<Rightarrow> jsval" where
  "findId2 shadows2 sName iName =
     (case find_first (namedAs iName) (getItems shadows2 sName) of
        None \<Rightarrow> Undefined
      | Some i \<Rightarrow> e_id i)"

text \<open>
  The fallback for one kind: the first entry of the kind whose id was not seen before the
  write gives its id; without such an entry the id stays as it was.
\<close>

definition newIdOf :: "string \<Rightarrow> jsval list \<Rightarrow> entry list \<Rightarrow> jsval \<Rightarrow> jsval" where
  "newIdOf kind preIds list0 found =
     (case find_first (\<lambda>e. hasKind kind e \<and> e_id e \<notin> set preIds) list0 of
        None \<Rightarrow> found
      | Some e \<Rightarrow> e_id e)"

text \<open>The message \<^verbatim>\<open><Kind> encoder '' not found after creation.\<close>\<close>

definition notFound :: "string \<Rightarrow> string" where
  "notFound kind = kind @ '' encoder '' @ [CHR 0x27, CHR 0x27] @ '' not found after creation.''"

text \<open>Step 3 of the try block: the ids of the two encoders, or the exception's message.\<close>

definition verifyEncoders ::
  "shadow list \<Rightarrow> string \<Rightarrow> string \<Rightarrow> jsval list \<Rightarrow> jsval list \<Rightarrow> string + jsval \<times> jsval" where
  "verifyEncoders shadows2 vName aName preVideoIds preAudioIds =
     (let vid0 = findId2 shadows2 ''Encoders'' vName;
          aud0 = findId2 shadows2 ''Encoders'' aName;
          list0 = getItems shadows2 ''Encoders'';
          vidId = (if (\<not> truthy vid0 \<or> \<not> truthy aud0) \<and> \<not> truthy vid0
                   then newIdOf ''video'' preVideoIds list0 vid0 else vid0);
          audId = (if (\<not> truthy vid0 \<or> \<not> truthy aud0) \<and> \<not> truthy aud0
                   then newIdOf ''audio'' preAudioIds list0 aud0 else aud0)
      in if \<not> truthy vidId then Inl (notFound ''Video'')
         else if \<not> truthy audId then Inl (notFound ''Audio'')
         else Inr (vidId, audId))"

text \<open>\<^verbatim>\<open>findIndex\<close> and \<^verbatim>\<open>splice(idx, 1)\<close>: drop the first element satisfying \<open>p\<close>.\<close>

fun remove_first :: "('a \<Rightarrow> bool) \<Rightarrow> 'a list \<Rightarrow> 'a list" where
  "remove_first p [] = []"
| "remove_first p (x # xs) = (if p x then xs else x # remove_first p xs)"

definition removeDeployed :: "intent \<Rightarrow> entry list \<Rightarrow> entry list" where
  "removeDeployed outp nextOutputs =
     (if truthy (o_videonId outp)
      then remove_first (\<lambda>x. js_or (e_out_stream_id x) (e_id x) = o_videonId outp) nextOutputs
      else nextOutputs)"

text \<open>\<^verbatim>\<open>output._tempPort\<close> as a value: the number assigned, or \<^verbatim>\<open>undefined\<close>.\<close>

definition tempPort :: "intent \<Rightarrow> jsval" where
  "tempPort outp = (case o_tempPort outp of None \<Rightarrow> Undefined | Some port \<Rightarrow> Num port)"

definition listenerEntry :: "intent \<Rightarrow> nat \<Rightarrow> jsval \<Rightarrow> jsval \<Rightarrow> entry" where
  "listenerEntry outp index vidId audId =
     no_entry\<lparr>e_id := Bool False, e_type := Some ''srt'',
       e_config := Some (no_config\<lparr>c_enable := Some True, c_destination_ip := Some [],
         c_destination_port := tempPort outp, c_sources_audio := [audId],
         c_sources_video := [vidId], c_call_mode := Some ''LISTENER'',
         c_name := Str (if o_name outp \<noteq> [] then o_name outp
                        else o_target outp @ '' '' @ decimal (index + 1))\<rparr>)\<rparr>"

definition callerEntry :: "intent \<Rightarrow> nat \<Rightarrow> string \<Rightarrow> int \<Rightarrow> jsval \<Rightarrow> jsval \<Rightarrow> entry" where
  "callerEntry outp index mIp mPort vidId audId =
     no_entry\<lparr>e_id := Bool False, e_type := Some ''srt'',
       e_config := Some (no_config\<lparr>c_enable := Some True, c_destination_ip := Some mIp,
         c_destination_port := Num (mPort + int index), c_sources_audio := [audId],
         c_sources_video := [vidId], c_call_mode := Some ''CALLER'',
         c_name := Str (if o_name outp \<noteq> [] then o_name outp
                        else ''Manual Output '' @ decimal (index + 1))\<rparr>)\<rparr>"

text \<open>
  The key under which a value reads or writes a property of a plain object
  (\<^verbatim>\<open>portMap[port]\<close>): the decimal text of a number, a text itself.
\<close>

definition propKey :: "jsval \<Rightarrow> string" where
  "propKey v =
     (case v of
        Undefined \<Rightarrow> ''undefined''
      | Null \<Rightarrow> ''null''
      | Bool b \<Rightarrow> (if b then ''true'' else ''false'')
      | Num n \<Rightarrow> show_int n
      | Str s \<Rightarrow> s)"

text \<open>
  One round of the second \<^verbatim>\<open>newOutputs.forEach\<close>, on the pair of \<^verbatim>\<open>nextOutputs\<close> and
  \<^verbatim>\<open>portMap\<close> (a plain object: the key of a provisional port to the index of its intent).
\<close>

definition outputStep ::
  "string \<Rightarrow> int option \<Rightarrow> jsval \<Rightarrow> jsval \<Rightarrow> entry list \<times> (string \<rightharpoonup> nat) \<Rightarrow> nat \<times> intent
     \<Rightarrow> entry list \<times> (string \<rightharpoonup> nat)" where
  "outputStep mIp mPort vidId audId acc io =
     (case acc of (nextOutputs, portMap) \<Rightarrow>
      case io of (index, outp) \<Rightarrow>
        let kept = removeDeployed outp nextOutputs
        in if isPlatform outp
           then (kept @ [listenerEntry outp index vidId audId],
                 portMap(propKey (tempPort outp) \<mapsto> index))
           else (case mPort of
                   None \<Rightarrow> (kept, portMap)
                 | Some mp \<Rightarrow>
                     if mIp \<noteq> [] \<and> o_target outp \<noteq> ''Tellyo Studio''
                     then (kept @ [callerEntry outp index mIp mp vidId audId], portMap)
                     else (kept, portMap)))"

definition buildOutputs ::
  "string \<Rightarrow> int option \<Rightarrow> jsval \<Rightarrow> jsval \<Rightarrow> entry list \<Rightarrow> intent list
     \<Rightarrow> entry list \<times> (string \<rightharpoonup> nat)" where
  "buildOutputs mIp mPort vidId audId currentOutputs newOutputs =
     foldl (outputStep mIp mPort vidId audId) (currentOutputs, Map.empty)
       (zip [0 ..< length newOutputs] newOutputs)"

text \<open>\<^verbatim>\<open>ro.output_type?.srt?.dest_port || ro.config?.destination_port\<close>\<close>

definition roPort :: "entry \<Rightarrow> jsval" where
  "roPort ro =
     js_or (e_ot_srt_dest_port ro)
       (case e_config ro of None \<Rightarrow> Undefined | Some c \<Rightarrow> c_destination_port c)"

text \<open>\<^verbatim>\<open>ro.output_type?.value || ro.type\<close>\<close>

definition roType :: "entry \<Rightarrow> jsval" where
  "roType ro = js_or (e_ot_value ro) (case e_type ro of None \<Rightarrow> Undefined | Some t \<Rightarrow> Str t)"

text \<open>
  The properties every plain object inherits from \<^verbatim>\<open>Object.prototype\<close>: under these keys
  \<^verbatim>\<open>portMap[p]\<close> is not \<^verbatim>\<open>undefined\<close> although the loop never wrote it.
\<close>

definition inheritedKeys :: "string list" where
  "inheritedKeys = [''constructor'', ''hasOwnProperty'', ''isPrototypeOf'', ''propertyIsEnumerable'',
     ''toLocaleString'', ''toString'', ''valueOf'', ''__proto__'', ''__defineGetter__'',
     ''__defineSetter__'', ''__lookupGetter__'', ''__lookupSetter__'']"

text \<open>
  One round of \<^verbatim>\<open>reported.forEach\<close>. \<^verbatim>\<open>newOutputs[portMap[p]].videonId = ...\<close> throws a
  \<^verbatim>\<open>TypeError\<close> (with the runtime's message \<open>tyErr\<close>) when \<^verbatim>\<open>portMap[p]\<close> is not the index of
  an intent, which an inherited property is not.
\<close>

definition matchStep ::
  "string \<Rightarrow> (string \<rightharpoonup> nat) \<Rightarrow> intent list \<Rightarrow> entry \<Rightarrow> string + intent list" where
  "matchStep tyErr portMap newOutputs ro =
     (if roType ro = Str ''srt'' \<and> truthy (roPort ro)
      then (case portMap (propKey (roPort ro)) of
              Some i \<Rightarrow>
                if i < length newOutputs
                then Inr (newOutputs[i := (newOutputs ! i)\<lparr>o_videonId :=
                            js_or (e_out_stream_id ro) (e_id ro)\<rparr>])
                else Inl tyErr
            | None \<Rightarrow>
                if propKey (roPort ro) \<in> set inheritedKeys then Inl tyErr else Inr newOutputs)
      else Inr newOutputs)"

fun matchAll ::
  "string \<Rightarrow> (string \<rightharpoonup> nat) \<Rightarrow> intent list \<Rightarrow> entry list \<Rightarrow> string + intent list" where
  "matchAll tyErr portMap newOutputs [] = Inr newOutputs"
| "matchAll tyErr portMap newOutputs (ro # rest) =
     (case matchStep tyErr portMap newOutputs ro of
        Inl msg \<Rightarrow> Inl msg
      | Inr newOutputs' \<Rightarrow> matchAll tyErr portMap newOutputs' rest)"

text \<open>
  Step 5: \<^verbatim>\<open>reported\<close> is the state of the \<^verbatim>\<open>Outputs\<close> shadow or \<^verbatim>\<open>[]\<close>, and only an
  array is walked (\<^verbatim>\<open>if (Array.isArray(reported))\<close>).
\<close>

definition verifyOutputs ::
  "string \<Rightarrow> shadow list \<Rightarrow> (string \<rightharpoonup> nat) \<Rightarrow> intent list \<Rightarrow> string + intent list" where
  "verifyOutputs tyErr finalShadows portMap newOutputs =
     (case getShadow finalShadows ''Outputs'' of
        None \<Rightarrow> Inr newOutputs
      | Some s \<Rightarrow>
          (case reported_state s of
             Arr reported \<Rightarrow> matchAll tyErr portMap newOutputs reported
           | Obj _ \<Rightarrow> Inr newOutputs
           | NullState \<Rightarrow> Inr newOutputs
           | Absent \<Rightarrow> Inr newOutputs))"

text \<open>
  What the device answers during one run, in the order of the calls: three reads of the
  shadows and the outcome of the two writes (\<open>Some msg\<close> is a rejection with that
  message). \<open>typeError\<close> is the message of the runtime's \<^verbatim>\<open>TypeError\<close> for setting a
  property of \<^verbatim>\<open>undefined\<close>.
\<close>

record device_env =
  shRes1 :: shres
  encodersWrite :: "string option"
  shRes2 :: shres
  outputsWrite :: "string option"
  finalShRes :: shres
  typeError :: string

text \<open>
  The try block of \<^verbatim>\<open>handleConfigure\<close>: the calls made, and either the message of the
  exception that ended it or \<^verbatim>\<open>newOutputs\<close> with the device's output ids.
\<close>

definition videonPhase ::
  "props \<Rightarrow> device_env \<Rightarrow> profile \<Rightarrow> intent list \<Rightarrow> call list \<times> (string + intent list)" where
  "videonPhase pr env c newOutputs =
     (let shadows = shadowsOf (shRes1 env);
          inputId = (case getItems shadows ''Inputs'' of [] \<Rightarrow> Undefined | e # _ \<Rightarrow> e_id e);
          encVersion = versionOr (getShadow shadows ''Encoders'') 0;
          currentEncoders = getItems shadows ''Encoders'';
          preVideoIds = kindIds ''video'' currentEncoders;
          preAudioIds = kindIds ''audio'' currentEncoders;
          c1 = [DeviceShadows,
                SetDeviceShadows ''Encoders'' encVersion (nextEncoders c inputId currentEncoders)]
      in case encodersWrite env of
           Some msg \<Rightarrow> (c1, Inl msg)
         | None \<Rightarrow>
             let shadows2 = shadowsOf (shRes2 env);
                 outVersion = versionOr (getShadow shadows2 ''Outputs'') 0;
                 c2 = c1 @ [Wait 20000, DeviceShadows]
             in case verifyEncoders shadows2 (videoName c) (audioName c) preVideoIds preAudioIds of
                  Inl msg \<Rightarrow> (c2, Inl msg)
                | Inr (vidId, audId) \<Rightarrow>
                    (case buildOutputs (manualIp pr) (manualPort pr) vidId audId
                            (getItems shadows2 ''Outputs'') newOutputs of
                       (nextOutputs, portMap) \<Rightarrow>
                         let c3 = c2 @ [SetDeviceShadows ''Outputs'' outVersion nextOutputs]
                         in case outputsWrite env of
                              Some msg \<Rightarrow> (c3, Inl msg)
                            | None \<Rightarrow>
                                (c3 @ [Wait 2000, DeviceShadows],
                                 verifyOutputs (typeError env) (shadowsOf (finalShRes env)) portMap
                                   newOutputs)))"

section \<open>handleConfigure: the downstream registries\<close>

text \<open>
  \<^verbatim>\<open>toLowerCase\<close> on a code unit below 256: the letters A to Z and the capital letters
  U+00C0 to U+00DE (but the sign U+00D7) have their small letter 32 places on.
\<close>

definition capitals :: string where
  "capitals = ''ABCDEFGHIJKLMNOPQRSTUVWXYZ'' @
     [CHR 0xC0, CHR 0xC1, CHR 0xC2, CHR 0xC3, CHR 0xC4, CHR 0xC5, CHR 0xC6, CHR 0xC7,
      CHR 0xC8, CHR 0xC9, CHR 0xCA, CHR 0xCB, CHR 0xCC, CHR 0xCD, CHR 0xCE, CHR 0xCF,
      CHR 0xD0, CHR 0xD1, CHR 0xD2, CHR 0xD3, CHR 0xD4, CHR 0xD5, CHR 0xD6,
      CHR 0xD8, CHR 0xD9, CHR 0xDA, CHR 0xDB, CHR 0xDC, CHR 0xDD, CHR 0xDE]"

definition smalls :: string where
  "smalls = ''abcdefghijklmnopqrstuvwxyz'' @
     [CHR 0xE0, CHR 0xE1, CHR 0xE2, CHR 0xE3, CHR 0xE4, CHR 0xE5, CHR 0xE6, CHR 0xE7,
      CHR 0xE8, CHR 0xE9, CHR 0xEA, CHR 0xEB, CHR 0xEC, CHR 0xED, CHR 0xEE, CHR 0xEF,
      CHR 0xF0, CHR 0xF1, CHR 0xF2, CHR 0xF3, CHR 0xF4, CHR 0xF5, CHR 0xF6,
      CHR 0xF8, CHR 0xF9, CHR 0xFA, CHR 0xFB, CHR 0xFC, CHR 0xFD, CHR 0xFE]"

definition to_lower :: "char \<Rightarrow> char" where
  "to_lower c = (case map_of (zip capitals smalls) c of None \<Rightarrow> c | Some l \<Rightarrow> l)"

definition is_label_char :: "char \<Rightarrow> bool" where
  "is_label_char c =
     (c \<in> set ''ABCDEFGHIJKLMNOPQRSTUVWXYZabcdefghijklmnopqrstuvwxyz0123456789_-'')"

text \<open>
  \<^verbatim>\<open>sanitizeLabel\<close> of utils/helpers.js: trim, replace what is not a letter A to Z or a
  to z, a digit, an underscore or a hyphen by an underscore, and lower the case.
\<close>

definition sanitizeLabel :: "string \<Rightarrow> string \<Rightarrow> string" where
  "sanitizeLabel label fallback =
     map to_lower
       (map (\<lambda>c. if is_label_char c then c else CHR ''_'')
          (trim (if label \<noteq> [] then label else if fallback \<noteq> [] then fallback else ''lec_ingest'')))"

text \<open>The answers of the Tellyo registry to the calls of one run.\<close>

record tellyo_env =
  listChannels :: "string + channel list"
  updateChannel :: "string option"
  createChannel :: "string + channel option"

text \<open>
  The answers of the CLOUDPORT registry: the ingests the label query lists (after
  \<^verbatim>\<open>extractCloudportIngests\<close>), the outcome of an update, and the body of a create.
\<close>

record create_response =
  cr_id :: jsval
  cr_ingests :: "ingest list option"

record cloudport_env =
  fetchIngests :: "string + ingest list"
  updateIngest :: "string option"
  createIngest :: "string + create_response"

record env =
  dev :: device_env
  tel :: tellyo_env
  cp :: cloudport_env

definition channelNameOf :: "profile \<Rightarrow> string" where
  "channelNameOf c =
     (if t_channelName (p_tellyo c) \<noteq> [] then t_channelName (p_tellyo c)
      else sanitizeLabel (p_name c) ''lec_channel'')"

text \<open>
  The lookup of the Tellyo channel: by the remembered id when there is one, and by name
  when that finds nothing.
\<close>

definition findChannel :: "profile \<Rightarrow> string \<Rightarrow> channel list \<Rightarrow> channel option" where
  "findChannel c chName channels =
     (case (if truthy (t_lastChannelId (p_tellyo c))
            then find_first (\<lambda>x. ch_id x = t_lastChannelId (p_tellyo c)) channels
            else None) of
        Some ch \<Rightarrow> Some ch
      | None \<Rightarrow> find_first (\<lambda>x. ch_name x = Some chName) channels)"

definition rememberChannel :: "profile \<Rightarrow> jsval \<Rightarrow> string \<Rightarrow> ui \<Rightarrow> ui" where
  "rememberChannel c chId sUrl u =
     (if truthy chId
      then setProfiles (p_id c)
             (\<lambda>p. p\<lparr>p_tellyo := (p_tellyo p)\<lparr>t_lastChannelId := chId, t_lastStreamUrl := Some sUrl\<rparr>\<rparr>) u
      else u)"

text \<open>\<^verbatim>\<open>`srt://${deviceIp}:${out._tempPort}`\<close>\<close>

definition srtListener :: "props \<Rightarrow> int \<Rightarrow> string" where
  "srtListener pr port = ''srt://'' @ deviceIp pr @ '':'' @ show_int port"

definition configureTellyo :: "props \<Rightarrow> tellyo_env \<Rightarrow> profile \<Rightarrow> intent list \<Rightarrow> ui \<Rightarrow> ui" where
  "configureTellyo pr env c newOutputs u =
     (case filter (\<lambda>x. o_target x = ''Tellyo Studio'') newOutputs of
        [] \<Rightarrow> u\<lparr>tellyoStatus := setStatus Idle []\<rparr>
      | outp # _ \<Rightarrow>
          (case o_tempPort outp of
             None \<Rightarrow> u\<lparr>tellyoStatus := setStatus Idle []\<rparr>
           | Some port \<Rightarrow>
               if port = 0 then u\<lparr>tellyoStatus := setStatus Idle []\<rparr>
               else if ts_apiEndpoint (tellyoSettings pr) = [] \<or> ts_token (tellyoSettings pr) = []
               then u\<lparr>tellyoStatus := setStatus Failure ''Tellyo settings missing''\<rparr>
               else
                 let sUrl = srtListener pr port;
                     chName = channelNameOf c;
                     u1 = log_call [TellyoListChannels]
                            (u\<lparr>tellyoStatus := setStatus Pending ''Configuring ...''\<rparr>)
                 in case listChannels env of
                      Inl msg \<Rightarrow> u1\<lparr>tellyoStatus := setStatus Failure msg\<rparr>
                    | Inr channels \<Rightarrow>
                        let channel = findChannel c chName channels
                        in case buildTellyoChannelPayload
                                  ((p_tellyo c)\<lparr>t_channelName := chName, t_streamUrl := sUrl\<rparr>)
                                  (deviceIp pr) channels
                                  (case channel of None \<Rightarrow> Undefined | Some ch \<Rightarrow> ch_id ch) of
                             Inl msg \<Rightarrow> u1\<lparr>tellyoStatus := setStatus Failure msg\<rparr>
                           | Inr payload \<Rightarrow>
                               (case channel of
                                  Some ch \<Rightarrow>
                                    let u2 = log_call [TellyoUpdateChannel (ch_id ch) payload] u1
                                    in (case updateChannel env of
                                          Some msg \<Rightarrow> u2\<lparr>tellyoStatus := setStatus Failure msg\<rparr>
                                        | None \<Rightarrow>
                                            rememberChannel c (ch_id ch) sUrl
                                              (u2\<lparr>tellyoStatus := setStatus Success ''Channel updated''\<rparr>))
                                | None \<Rightarrow>
                                    let u2 = log_call [TellyoCreateChannel payload] u1
                                    in (case createChannel env of
                                          Inl msg \<Rightarrow> u2\<lparr>tellyoStatus := setStatus Failure msg\<rparr>
                                        | Inr created \<Rightarrow>
                                            let u3 = u2\<lparr>tellyoStatus := setStatus Success ''Channel created''\<rparr>
                                            in (case created of
                                                  None \<Rightarrow> u3
                                                | Some ch \<Rightarrow> rememberChannel c (ch_id ch) sUrl u3)))))"

text \<open>
  The matching inside \<^verbatim>\<open>API.cloudportFetchByLabel\<close>: the exact label, then the label
  without regard to case, then the first ingest listed.
\<close>

definition cloudportFetchByLabel :: "string \<Rightarrow> ingest list \<Rightarrow> ingest option" where
  "cloudportFetchByLabel label ingests =
     (case ingests of
        [] \<Rightarrow> None
      | first # _ \<Rightarrow>
          if label \<noteq> []
          then (case find_first (\<lambda>x. in_label x = label) ingests of
                  Some m \<Rightarrow> Some m
                | None \<Rightarrow>
                    (case find_first (\<lambda>x. map to_lower (in_label x) = map to_lower label) ingests of
                       Some m \<Rightarrow> Some m
                     | None \<Rightarrow> Some first))
          else Some first)"

definition ingestLabelOf :: "profile \<Rightarrow> string" where
  "ingestLabelOf c =
     (if cp_ingestLabel (p_cloudport c) \<noteq> [] then cp_ingestLabel (p_cloudport c)
      else sanitizeLabel (p_name c) ''lec_ingest'')"

definition nullish :: "jsval \<Rightarrow> bool" where
  "nullish v = (v = Undefined \<or> v = Null)"

definition rememberIngest :: "profile \<Rightarrow> jsval \<Rightarrow> string \<Rightarrow> ui \<Rightarrow> ui" where
  "rememberIngest c ingestId sUrl u =
     setProfiles (p_id c)
       (\<lambda>p. p\<lparr>p_cloudport := (p_cloudport p)\<lparr>cp_lastIngestId := ingestId,
                 cp_lastStreamUrl := Some sUrl\<rparr>\<rparr>) u"

text \<open>\<^verbatim>\<open>res?.id || (Array.isArray(res?.ingests) ? res.ingests[0]?.id : null)\<close>\<close>

definition newIngestId :: "create_response \<Rightarrow> jsval" where
  "newIngestId res =
     (if truthy (cr_id res) then cr_id res
      else (case cr_ingests res of
              None \<Rightarrow> Null
            | Some [] \<Rightarrow> Undefined
            | Some (i # _) \<Rightarrow> in_id i))"

text \<open>
  The CLOUDPORT block. \<^verbatim>\<open>API.cloudportUpdate\<close> throws \<^verbatim>\<open>Missing ingest id\<close> for an id that
  is \<^verbatim>\<open>undefined\<close> or \<^verbatim>\<open>null\<close>; the track list of the payload is left out.
\<close>

definition configureCloudport ::
  "props \<Rightarrow> cloudport_env \<Rightarrow> profile \<Rightarrow> intent list \<Rightarrow> ui \<Rightarrow> ui" where
  "configureCloudport pr env c newOutputs u =
     (case filter (\<lambda>x. o_target x = ''Amagi CLOUDPORT'') newOutputs of
        [] \<Rightarrow> u\<lparr>cloudStatus := setStatus Idle []\<rparr>
      | outp # _ \<Rightarrow>
          (case o_tempPort outp of
             None \<Rightarrow> u\<lparr>cloudStatus := setStatus Idle []\<rparr>
           | Some port \<Rightarrow>
               if port = 0 then u\<lparr>cloudStatus := setStatus Idle []\<rparr>
               else if cs_baseHost (cloudportSettings pr) = []
                       \<or> cs_userAuthToken (cloudportSettings pr) = []
               then u\<lparr>cloudStatus := setStatus Failure ''Cloudport settings missing''\<rparr>
               else
                 let sUrl = srtListener pr port;
                     ingestLabel = ingestLabelOf c;
                     payload = \<lparr>cpp_ingest_label = ingestLabel, cpp_stream_url = Some sUrl,
                                cpp_always_on = cp_alwaysOn (p_cloudport c)\<rparr>;
                     u1 = log_call [Wait 1000, CloudportFetchByLabel ingestLabel]
                            (u\<lparr>cloudStatus := setStatus Pending ''Configuring ...''\<rparr>)
                 in case fetchIngests env of
                      Inl msg \<Rightarrow> u1\<lparr>cloudStatus := setStatus Failure msg\<rparr>
                    | Inr ingests \<Rightarrow>
                        (case cloudportFetchByLabel ingestLabel ingests of
                           Some ing \<Rightarrow>
                             let ingestId = js_or (in_id ing) (in_ingest_id ing);
                                 u2 = log_call [CloudportUpdate ingestId payload] u1
                             in (case (if nullish ingestId then Some ''Missing ingest id''
                                       else updateIngest env) of
                                   Some msg \<Rightarrow> u2\<lparr>cloudStatus := setStatus Failure msg\<rparr>
                                 | None \<Rightarrow>
                                     rememberIngest c ingestId sUrl
                                       (u2\<lparr>cloudStatus := setStatus Success ''Ingest updated''\<rparr>))
                         | None \<Rightarrow>
                             let u2 = log_call [CloudportCreate payload] u1
                             in (case createIngest env of
                                   Inl msg \<Rightarrow> u2\<lparr>cloudStatus := setStatus Failure msg\<rparr>
                                 | Inr res \<Rightarrow>
                                     let u3 = u2\<lparr>cloudStatus := setStatus Success ''Ingest created''\<rparr>
                                     in if truthy (newIngestId res)
                                        then rememberIngest c (newIngestId res) sUrl u3
                                        else u3))))"

text \<open>Step 2 of \<^verbatim>\<open>handleConfigure\<close>: Tellyo first, then CLOUDPORT, each in its own try.\<close>

definition configureDownstream :: "props \<Rightarrow> env \<Rightarrow> profile \<Rightarrow> intent list \<Rightarrow> ui \<Rightarrow> ui" where
  "configureDownstream pr e c newOutputs u =
     configureCloudport pr (cp e) c newOutputs (configureTellyo pr (tel e) c newOutputs u)"

section \<open>handleConfigure\<close>

text \<open>
  The handler of "Configure endpoints". Its progress toasts are not modelled; the toast
  field keeps the first one.
\<close>

text \<open>"Reset status and show initial toast".\<close>

definition resetStatus :: "ui \<Rightarrow> ui" where
  "resetStatus u =
     u\<lparr>err := [], toast := ''Configuring endpoints...'',
       cloudStatus := setStatus Pending ''Waiting for Videon...'',
       tellyoStatus := setStatus Pending ''Waiting for Videon...''\<rparr>"

definition handleConfigure :: "props \<Rightarrow> env \<Rightarrow> ui \<Rightarrow> ui" where
  "handleConfigure pr e u =
     (case cur pr u of
        None \<Rightarrow> u
      | Some c \<Rightarrow>
          let u0 = u\<lparr>ipModalOpen := False\<rparr>
          in if safeMode pr then writeBlocked u0
             else
               let u1 = resetStatus u0
               in case preAssignPorts 10001 (p_outputs c) of
                    Inl msg \<Rightarrow> u1\<lparr>thrown := Some msg\<rparr>
                  | Inr newOutputs \<Rightarrow>
                      (case videonPhase pr (dev e) c newOutputs of
                         (cs, r) \<Rightarrow>
                           let u2 = log_call cs u1
                           in case r of
                                Inl msg \<Rightarrow>
                                  if bypassVideonError pr
                                  then configureDownstream pr e c newOutputs
                                         (u2\<lparr>err := ''Videon config failed (Bypassed): '' @ msg\<rparr>)
                                  else u2\<lparr>err := ''Videon config failed: '' @ msg,
                                          cloudStatus := setStatus Idle [],
                                          tellyoStatus := setStatus Idle []\<rparr>
                              | Inr verified \<Rightarrow>
                                  configureDownstream pr e c verified
                                    (setProfiles (p_id c) (\<lambda>p. p\<lparr>p_outputs := verified\<rparr>) u2)))"

section \<open>The output reconciler: bulk restart and toggle\<close>

text \<open>
  \<^verbatim>\<open>Array.isArray(shadows) ? shadows.find(s => s.shadow_name === 'Outputs') : shadows\<close> with
  \<^verbatim>\<open>shadows = shRes?.shadows || shRes\<close>: an unwrapped object is taken as the shadow itself.
\<close>

definition restartShadow :: "shres \<Rightarrow> shadow option" where
  "restartShadow shRes =
     (case shRes of
        Wrapped xs \<Rightarrow> getShadow xs ''Outputs''
      | Bare xs \<Rightarrow> getShadow xs ''Outputs''
      | Single s \<Rightarrow> Some s)"

text \<open>\<^verbatim>\<open>o.config?.enable === true\<close>\<close>

definition isEnabled :: "entry \<Rightarrow> bool" where
  "isEnabled x = (case e_config x of None \<Rightarrow> False | Some c \<Rightarrow> c_enable c = Some True)"

text \<open>
  The entries to restart: the enabled ones of the array, or of the object's values. For
  \<^verbatim>\<open>null\<close>, \<^verbatim>\<open>typeof reportedState === 'object'\<close> holds and \<^verbatim>\<open>Object.values(null)\<close> throws a
  \<^verbatim>\<open>TypeError\<close> (\<open>None\<close>).
\<close>

definition restartTargets :: "rstate \<Rightarrow> entry list option" where
  "restartTargets reportedState =
     (case reportedState of
        Arr xs \<Rightarrow> Some (filter isEnabled xs)
      | Obj kvs \<Rightarrow> Some (filter isEnabled (map snd kvs))
      | NullState \<Rightarrow> None
      | Absent \<Rightarrow> Some [])"

text \<open>\<^verbatim>\<open>{ id: t.id || t.output_id, type: t.type, config: { enable: b } }\<close>\<close>

definition switchEntry :: "bool \<Rightarrow> entry \<Rightarrow> entry" where
  "switchEntry b t =
     no_entry\<lparr>e_id := js_or (e_id t) (e_output_id t), e_type := e_type t,
       e_config := Some (no_config\<lparr>c_enable := Some b\<rparr>)\<rparr>"

text \<open>
  What the device answers during a restart; \<open>nullError\<close> is the message of the runtime's
  \<^verbatim>\<open>TypeError\<close> for \<^verbatim>\<open>Object.values(null)\<close>.
\<close>

record restart_env =
  restartRead1 :: shres
  stopWrite :: "string option"
  restartRead2 :: shres
  startWrite :: "string option"
  nullError :: string

definition handleRestart :: "props \<Rightarrow> restart_env \<Rightarrow> ui \<Rightarrow> ui" where
  "handleRestart pr env u =
     (if safeMode pr then writeBlocked u
      else
        let u1 = log_call [DeviceShadows] (u\<lparr>op := ''restart'', err := []\<rparr>)
        in case restartShadow (restartRead1 env) of
             None \<Rightarrow> u1\<lparr>op := ''restart-err'',
                        err := ''Restart failed: Could not retrieve Outputs shadow''\<rparr>
           | Some outputsShadow \<Rightarrow>
               let version0 = versionOr (Some outputsShadow) 0
               in case restartTargets (reported_state outputsShadow) of
                    None \<Rightarrow> u1\<lparr>op := ''restart-err'', err := ''Restart failed: '' @ nullError env\<rparr>
                  | Some targets \<Rightarrow>
                      if targets = []
                      then u1\<lparr>op := ''restart-ok'', toast := ''No active outputs to restart.''\<rparr>
                      else
                        let u2 = log_call [UpdateShadow ''Outputs'' version0
                                             (map (switchEntry False) targets)] u1
                        in case stopWrite env of
                             Some msg \<Rightarrow> u2\<lparr>op := ''restart-err'', err := ''Restart failed: '' @ msg\<rparr>
                           | None \<Rightarrow>
                               let version2 = versionOr (restartShadow (restartRead2 env)) (version0 + 1);
                                   u3 = log_call [Wait 2000, DeviceShadows,
                                          UpdateShadow ''Outputs'' version2
                                            (map (switchEntry True) targets)] u2
                               in case startWrite env of
                                    Some msg \<Rightarrow> u3\<lparr>op := ''restart-err'', err := ''Restart failed: '' @ msg\<rparr>
                                  | None \<Rightarrow> u3\<lparr>op := ''restart-ok'',
                                                toast := ''Restart sequence completed''\<rparr>)"

text \<open>\<^verbatim>\<open>doCmd(label, payload)\<close>; \<open>res\<close> is the outcome of \<^verbatim>\<open>API.postCommand\<close>.\<close>

definition doCmd :: "props \<Rightarrow> string option \<Rightarrow> string \<Rightarrow> string \<Rightarrow> ui \<Rightarrow> ui" where
  "doCmd pr res label payload u =
     (if safeMode pr then writeBlocked u
      else
        let effectiveOrgGuid = (if label = ''reboot'' \<or> label = ''restart'' then None else orgGuid pr);
            u1 = log_call [PostCommand effectiveOrgGuid payload] (u\<lparr>op := label, err := []\<rparr>)
        in case res of
             None \<Rightarrow> u1\<lparr>op := label @ ''-ok'', toast := label @ '' command sent''\<rparr>
           | Some msg \<Rightarrow> u1\<lparr>op := label @ ''-err'', err := ''Command failed: '' @ msg\<rparr>)"

text \<open>An output as \<^verbatim>\<open>parseOutputs\<close> lists it, and a row of the table of configured outputs.\<close>

record parsed_output =
  po_output_id :: jsval
  po_enabled :: bool

record mapped_output =
  matchId :: jsval
  m_enabled :: bool

definition traceCalls :: "event list \<Rightarrow> call list" where
  "traceCalls tr = map (\<lambda>ev. case ev of Sleep d \<Rightarrow> Wait d | Fetch \<Rightarrow> DeviceShadows) tr"

text \<open>
  \<^verbatim>\<open>toggleOut(it)\<close>; \<open>res\<close> is the outcome of \<^verbatim>\<open>API.postOutputs\<close>. The per-output busy marks
  and the list of outputs on display are not part of the model.
\<close>

definition toggleOut ::
  "props \<Rightarrow> (nat \<Rightarrow> 'w \<Rightarrow> 'w) \<Rightarrow> ('w \<Rightarrow> parsed_output list \<times> 'w) \<Rightarrow> string option \<Rightarrow> mapped_output
     \<Rightarrow> ui \<times> 'w \<Rightarrow> ui \<times> 'w" where
  "toggleOut pr slp fetch res it uw =
     (case uw of (u, w) \<Rightarrow>
        if safeMode pr then (writeBlocked u, w)
        else if \<not> truthy (matchId it) then (u, w)
        else
          let u1 = log_call [PostOutputs (matchId it) (\<not> m_enabled it)] u
          in case res of
               Some msg \<Rightarrow> (u1\<lparr>err := msg\<rparr>, w)
             | None \<Rightarrow>
                 (case confirmOutputsState slp fetch
                         (\<lambda>list0. case find_first (\<lambda>x. po_output_id x = matchId it) list0 of
                                     None \<Rightarrow> False
                                   | Some x \<Rightarrow> po_enabled x = (\<not> m_enabled it)) w of
                    (r, w') \<Rightarrow>
                      let u2 = log_call (traceCalls (cf_trace r)) u1
                      in (if cf_ok r then u2\<lparr>err := []\<rparr>
                          else u2\<lparr>err := (if err u2 \<noteq> [] then err u2
                                           else ''Output  did not confirm.'')\<rparr>, w')))"

section \<open>Downstream delete and toggle\<close>

definition deleteTellyoChannel :: "props \<Rightarrow> ui \<Rightarrow> ui" where
  "deleteTellyoChannel pr u =
     (case cur pr u of
        None \<Rightarrow> u
      | Some c \<Rightarrow>
          if \<not> truthy (t_lastChannelId (p_tellyo c)) then u
          else if safeMode pr then writeBlocked u
          else u\<lparr>confirmData := Some (DeleteTellyoChannel (t_lastChannelId (p_tellyo c)))\<rparr>)"

definition deleteCloudportIngest :: "props \<Rightarrow> ui \<Rightarrow> ui" where
  "deleteCloudportIngest pr u =
     (case cur pr u of
        None \<Rightarrow> u
      | Some c \<Rightarrow>
          if safeMode pr then writeBlocked u
          else u\<lparr>confirmData := Some (DeleteCloudportIngest (ingestLabelOf c))\<rparr>)"

text \<open>\<open>res\<close> is the outcome of \<^verbatim>\<open>API.cloudportUpdate\<close>.\<close>

definition toggleCloudport :: "props \<Rightarrow> string option \<Rightarrow> ui \<Rightarrow> ui" where
  "toggleCloudport pr res u =
     (case cur pr u of
        None \<Rightarrow> u
      | Some c \<Rightarrow>
          let cpConfig = p_cloudport c
          in if \<not> truthy (cp_lastIngestId cpConfig) then u
             else if safeMode pr then writeBlocked u
             else
               let nextState = (\<not> cp_alwaysOn cpConfig);
                   payload = \<lparr>cpp_ingest_label = ingestLabelOf c,
                     cpp_stream_url =
                       (case cp_lastStreamUrl cpConfig of
                          None \<Rightarrow> cp_streamUrl cpConfig
                        | Some l \<Rightarrow> if l \<noteq> [] then Some l else cp_streamUrl cpConfig),
                     cpp_always_on = nextState\<rparr>;
                   u1 = log_call [CloudportUpdate (cp_lastIngestId cpConfig) payload]
                          (u\<lparr>cloudStatus := setStatus Pending '' CLOUDPORT feed...''\<rparr>)
               in case res of
                    Some msg \<Rightarrow> u1\<lparr>cloudStatus := setStatus Failure msg\<rparr>
                  | None \<Rightarrow>
                      (setProfiles (p_id c)
                         (\<lambda>p. p\<lparr>p_cloudport := (p_cloudport p)\<lparr>cp_alwaysOn := nextState\<rparr>\<rparr>) u1)
                      \<lparr>cloudStatus := setStatus Success
                         (if nextState then ''Feed enabled'' else ''Feed disabled'')\<rparr>)"

text \<open>
  The action a confirmed deletion runs (\<^verbatim>\<open>confirmData?.action()\<close>, then
  \<^verbatim>\<open>setConfirmData(null)\<close>), with the registries' answers.
\<close>

record confirm_env =
  deleteChannel :: "string option"
  lookupIngests :: "string + ingest list"
  deleteIngest :: "string option"

definition onConfirm :: "props \<Rightarrow> confirm_env \<Rightarrow> ui \<Rightarrow> ui" where
  "onConfirm pr env u =
     (case confirmData u of
        None \<Rightarrow> u
      | Some (DeleteTellyoChannel channelId) \<Rightarrow>
          let u1 = log_call [TellyoDeleteChannel channelId]
                     (u\<lparr>confirmData := None, tellyoStatus := setStatus Pending ''Deleting channel ...''\<rparr>)
          in (case deleteChannel env of
                Some msg \<Rightarrow> u1\<lparr>tellyoStatus := setStatus Failure msg\<rparr>
              | None \<Rightarrow>
                  (setProfiles (selPid pr)
                     (\<lambda>p. p\<lparr>p_tellyo := (p_tellyo p)\<lparr>t_lastChannelId := Null,
                               t_lastStreamUrl := None\<rparr>\<rparr>) u1)
                  \<lparr>tellyoStatus := setStatus Idle ''Channel deleted''\<rparr>)
      | Some (DeleteCloudportIngest label) \<Rightarrow>
          let u1 = log_call [CloudportFetchByLabel label]
                     (u\<lparr>confirmData := None, cloudStatus := setStatus Pending ''Deleting ingest ...''\<rparr>)
          in (case lookupIngests env of
                Inl msg \<Rightarrow> u1\<lparr>cloudStatus := setStatus Failure msg\<rparr>
              | Inr ingests \<Rightarrow>
                  let found = (case cloudportFetchByLabel label ingests of
                                 None \<Rightarrow> Undefined
                               | Some ing \<Rightarrow> js_or (in_id ing) (in_ingest_id ing));
                      remembered = (case cur pr u of
                                      None \<Rightarrow> Undefined
                                    | Some c \<Rightarrow> cp_lastIngestId (p_cloudport c));
                      ingestId = js_or found remembered
                  in if \<not> truthy ingestId
                     then u1\<lparr>cloudStatus := setStatus Failure ''Ingest point not found.''\<rparr>
                     else
                       let u2 = log_call [CloudportDelete ingestId] u1
                       in (case deleteIngest env of
                             Some msg \<Rightarrow> u2\<lparr>cloudStatus := setStatus Failure msg\<rparr>
                           | None \<Rightarrow>
                               (setProfiles (selPid pr)
                                  (\<lambda>p. p\<lparr>p_cloudport := (p_cloudport p)\<lparr>cp_lastIngestId := Null,
                                            cp_alwaysOn := False\<rparr>\<rparr>) u2)
                               \<lparr>cloudStatus := setStatus Idle ''Ingest deleted''\<rparr>)))"

section \<open>A run on the specification's example scenario\<close>

text \<open>
  Profile "Studio-A" with one intent for each platform; the device reports one input and
  no encoder or output, then the two encoders named after the profile, then the two
  listeners on the provisional ports. Both registries already hold an entity labelled
  \<^verbatim>\<open>studio-a\<close>.
\<close>

definition ex_tellyo_intent :: intent where
  "ex_tellyo_intent = \<lparr>o_name = ''Studio feed'', o_target = ''Tellyo Studio'', o_videonId = Undefined, o_tempPort = None\<rparr>"

definition ex_cloudport_intent :: intent where
  "ex_cloudport_intent = \<lparr>o_name = ''Playout feed'', o_target = ''Amagi CLOUDPORT'', o_videonId = Undefined, o_tempPort = None\<rparr>"

definition ex_profile :: profile where
  "ex_profile = \<lparr>p_id = ''p1'', p_name = ''Studio-A'',
     p_outputs = [ex_tellyo_intent, ex_cloudport_intent],
     p_tellyo = \<lparr>t_channelName = [], t_profile = ''hd'', t_streamUrl = [], t_lastChannelId = Undefined, t_lastStreamUrl = None\<rparr>,
     p_cloudport = \<lparr>cp_ingestLabel = [], cp_lastIngestId = Undefined, cp_lastStreamUrl = None, cp_streamUrl = None, cp_alwaysOn = False\<rparr>\<rparr>"

definition ex_ui :: ui where
  "ex_ui = \<lparr>profiles = [ex_profile], err = [], toast = [], op = [],
     cloudStatus = setStatus Idle [], tellyoStatus = setStatus Idle [],
     ipModalOpen = False, confirmData = None, calls = [], blocked = 0, thrown = None\<rparr>"

definition ex_props :: props where
  "ex_props = \<lparr>safeMode = False, bypassVideonError = False, selPid = ''p1'',
     deviceIp = ''203.0.113.7'', orgGuid = None, manualIp = [], manualPort = None,
     tellyoSettings = \<lparr>ts_apiEndpoint = ''https://tellyo.example/rest/open/v2'', ts_token = ''t0''\<rparr>,
     cloudportSettings = \<lparr>cs_baseHost = ''cp.example'', cs_userAuthToken = ''t1''\<rparr>\<rparr>"

definition ex_shadow :: "string \<Rightarrow> rstate \<Rightarrow> shadow" where
  "ex_shadow name st = \<lparr>shadow_name = Some name, current_version = Some 3, version = None, reported_state = st\<rparr>"

definition ex_encoder :: "int \<Rightarrow> string \<Rightarrow> entry" where
  "ex_encoder i name = no_entry\<lparr>e_id := Num i, e_name := Str name\<rparr>"

definition ex_output :: "int \<Rightarrow> int \<Rightarrow> entry" where
  "ex_output i port = no_entry\<lparr>e_id := Num i, e_type := Some ''srt'',
     e_config := Some (no_config\<lparr>c_destination_port := Num port\<rparr>)\<rparr>"

definition ex_device :: device_env where
  "ex_device = \<lparr>
     shRes1 = Wrapped [ex_shadow ''Inputs'' (Arr [no_entry\<lparr>e_id := Num 1\<rparr>]),
                       ex_shadow ''Encoders'' (Arr []), ex_shadow ''Outputs'' (Arr [])],
     encodersWrite = None,
     shRes2 = Wrapped [ex_shadow ''Encoders'' (Arr [ex_encoder 10 ''Studio-A_video'', ex_encoder 11 ''Studio-A_audio'']),
                       ex_shadow ''Outputs'' (Arr [])],
     outputsWrite = None,
     finalShRes = Wrapped [ex_shadow ''Outputs'' (Arr [ex_output 20 10001, ex_output 21 10002])],
     typeError = ''Cannot set properties of undefined''\<rparr>"

definition ex_env :: env where
  "ex_env = \<lparr>dev = ex_device,
     tel = \<lparr>listChannels = Inr [\<lparr>ch_id = Num 7, ch_name = Some ''studio-a'', ch_streamUrl = None\<rparr>],
             updateChannel = None, createChannel = Inr None\<rparr>,
     cp = \<lparr>fetchIngests = Inr [\<lparr>in_id = Num 5, in_ingest_id = Undefined, in_label = ''studio-a''\<rparr>],
            updateIngest = None, createIngest = Inl ''unused''\<rparr>\<rparr>"

definition ex_channel :: "int \<Rightarrow> string \<Rightarrow> channel" where
  "ex_channel i url = \<lparr>ch_id = Num i, ch_name = None, ch_streamUrl = Some url\<rparr>"

definition ex_restart_env :: "rstate \<Rightarrow> restart_env" where
  "ex_restart_env st =
     \<lparr>restartRead1 = Wrapped [ex_shadow ''Outputs'' st], stopWrite = None,
      restartRead2 = Wrapped [ex_shadow ''Outputs'' st], startWrite = None,
      nullError = ''Cannot convert undefined or null to object''\<rparr>"

definition ex_stopped :: entry where
  "ex_stopped = no_entry\<lparr>e_id := Num 20, e_type := Some ''srt'',
     e_config := Some (no_config\<lparr>c_enable := Some False\<rparr>)\<rparr>"

definition ex_safe_props :: props where
  "ex_safe_props = ex_props\<lparr>safeMode := True\<rparr>"

definition ex_final_map :: shres where
  "ex_final_map = Wrapped [ex_shadow ''Outputs'' (Obj [(''20'', ex_output 20 10001), (''21'', ex_output 21 10002)])]"

definition ex_assigned :: "intent list" where
  "ex_assigned = [ex_tellyo_intent\<lparr>o_tempPort := Some 10001\<rparr>, ex_cloudport_intent\<lparr>o_tempPort := Some 10002\<rparr>]"

text \<open>Registries that hold nothing yet and answer a create with the new entity.\<close>

definition ex_env_first :: env where
  "ex_env_first = ex_env\<lparr>
     tel := \<lparr>listChannels = Inr [], updateChannel = None,
             createChannel = Inr (Some \<lparr>ch_id = Num 7, ch_name = Some ''studio-a'', ch_streamUrl = None\<rparr>)\<rparr>,
     cp := \<lparr>fetchIngests = Inr [], updateIngest = None,
            createIngest = Inr \<lparr>cr_id = Num 5, cr_ingests = None\<rparr>\<rparr>\<rparr>"




text \<open>The encoder write is refused; the bypass setting; a Tellyo registry that is down.\<close>

definition ex_conflict :: env where
  "ex_conflict = ex_env\<lparr>dev := ex_device\<lparr>encodersWrite := Some ''409 Conflict''\<rparr>\<rparr>"

definition ex_bypass_props :: props where
  "ex_bypass_props = ex_props\<lparr>bypassVideonError := True\<rparr>"

definition ex_tellyo_down :: tellyo_env where
  "ex_tellyo_down = \<lparr>listChannels = Inl ''503 Service Unavailable'', updateChannel = None,
     createChannel = Inr None\<rparr>"

text \<open>
  A profile that remembers channel 9, and a registry in which channel 7 carries the
  profile's channel name and channel 9 another name.
\<close>

definition ex_remembered :: profile where
  "ex_remembered = ex_profile\<lparr>p_tellyo := (p_tellyo ex_profile)\<lparr>t_lastChannelId := Num 9\<rparr>\<rparr>"

definition ex_two_channels :: tellyo_env where
  "ex_two_channels =
     \<lparr>listChannels = Inr [\<lparr>ch_id = Num 7, ch_name = Some ''studio-a'', ch_streamUrl = None\<rparr>,
                          \<lparr>ch_id = Num 9, ch_name = Some ''other'', ch_streamUrl = None\<rparr>],
      updateChannel = None, createChannel = Inr None\<rparr>"

text \<open>The state a first run leaves when the registries hold nothing yet.\<close>

definition ex_first_run :: ui where
  "ex_first_run = handleConfigure ex_props ex_env_first ex_ui"

section \<open>Notions used in the statements\<close>




definition asArray :: "rstate \<Rightarrow> rstate" where
  "asArray st =
     (case st of
        Obj kvs \<Rightarrow> Arr (map snd kvs)
      | Arr xs \<Rightarrow> Arr xs
      | NullState \<Rightarrow> NullState
      | Absent \<Rightarrow> Absent)"

definition arrayShaped :: "shadow list \<Rightarrow> shadow list" where
  "arrayShaped shadows = map (\<lambda>s. s\<lparr>reported_state := asArray (reported_state s)\<rparr>) shadows"

definition barred :: "ui \<Rightarrow> ui \<Rightarrow> bool" where
  "barred u u' =
     (calls u' = calls u \<and> profiles u' = profiles u \<and> confirmData u' = confirmData u
      \<and> cloudStatus u' = cloudStatus u \<and> tellyoStatus u' = tellyoStatus u \<and> err u' = err u)"

fun isTellyoCall :: "call \<Rightarrow> bool" where
  "isTellyoCall TellyoListChannels = True"
| "isTellyoCall (TellyoUpdateChannel _ _) = True"
| "isTellyoCall (TellyoCreateChannel _) = True"
| "isTellyoCall (TellyoDeleteChannel _) = True"
| "isTellyoCall _ = False"

fun isCloudportCall :: "call \<Rightarrow> bool" where
  "isCloudportCall (CloudportFetchByLabel _) = True"
| "isCloudportCall (CloudportUpdate _ _) = True"
| "isCloudportCall (CloudportCreate _) = True"
| "isCloudportCall (CloudportDelete _) = True"
| "isCloudportCall _ = False"

fun isCreate :: "call \<Rightarrow> bool" where
  "isCreate (TellyoCreateChannel _) = True"
| "isCreate (CloudportCreate _) = True"
| "isCreate _ = False"

text \<open>The fields of a profile from which the downstream labels are derived.\<close>

definition labels :: "profile \<Rightarrow> string \<times> string \<times> string \<times> string \<times> string" where
  "labels p = (p_id p, p_name p, t_channelName (p_tellyo p), t_profile (p_tellyo p),
               cp_ingestLabel (p_cloudport p))"

section \<open>Auxiliary facts\<close>

lemma find_first_Some: "find_first P xs = Some x \<Longrightarrow> x \<in> set xs \<and> P x"
  by (induction xs) (auto split: if_splits)

lemma find_first_None: "find_first P xs = None \<longleftrightarrow> (\<forall>x\<in>set xs. \<not> P x)"
  by (induction xs) auto

lemmas ex_defs = ex_tellyo_intent_def ex_cloudport_intent_def ex_profile_def ex_ui_def ex_props_def
  ex_shadow_def ex_encoder_def ex_output_def ex_device_def ex_env_def

lemmas eval_defs = handleConfigure_def cur_def resetStatus_def writeBlocked_def setStatus_def log_call_def
  setProfiles_def isPlatform_def videonPhase_def shadowsOf_def getShadow_def getItems_def stateItems_def
  versionOr_def kindIds_def hasKind_def nextEncoders_def entryName_def newEncoder_def videoName_def audioName_def
  profileLabel_def verifyEncoders_def findId2_def namedAs_def newIdOf_def notFound_def buildOutputs_def outputStep_def
  removeDeployed_def listenerEntry_def callerEntry_def verifyOutputs_def matchStep_def roPort_def roType_def js_or_def
  configureDownstream_def configureTellyo_def configureCloudport_def channelNameOf_def ingestLabelOf_def
  findChannel_def rememberChannel_def rememberIngest_def cloudportFetchByLabel_def nullish_def newIngestId_def
  buildTellyoChannelPayload_def sanitizeLabel_def trim_def is_space_def to_lower_def is_label_char_def
  show_int_def srtListener_def decimal.simps no_entry_def no_config_def Let_def
  propKey_def tempPort_def inheritedKeys_def capitals_def smalls_def

section \<open>The provisional ports (claim C2)\<close>

lemma preAssignPorts_platform:
  assumes "\<forall>x\<in>set ots. isPlatform x"
  shows "preAssignPorts k ots =
           (if ots = [] \<or> k + int (length ots) \<le> 10101
            then Inr (map (\<lambda>(i, x). x\<lparr>o_tempPort := Some (k + int i)\<rparr>) (zip [0 ..< length ots] ots))
            else Inl ''Port range exhausted (10001-10100)'')"
  using assms
proof (induction ots arbitrary: k)
  case Nil
  then show ?case by simp
next
  case (Cons a ots)
  have shift: "map (\<lambda>(i, x). x\<lparr>o_tempPort := Some (k + int i)\<rparr>) (zip [0 ..< Suc (length ots)] (a # ots))
      = a\<lparr>o_tempPort := Some k\<rparr> # map (\<lambda>(i, x). x\<lparr>o_tempPort := Some (k + 1 + int i)\<rparr>) (zip [0 ..< length ots] ots)"
    by (auto simp add: upt_conv_Cons map_Suc_upt[symmetric] zip_map1 simp del: upt_Suc)
  from Cons.prems have pa: "isPlatform a" and rest: "\<forall>x\<in>set ots. isPlatform x" by simp_all
  show ?case
    using Cons.IH[OF rest, of "k + 1"] pa shift
    by (auto simp del: upt_Suc)
qed

lemma tempPorts_sequential:
  "map o_tempPort (map (\<lambda>(i, x). x\<lparr>o_tempPort := Some (k + int i)\<rparr>) (zip [0 ..< length ots] ots))
     = map (\<lambda>i. Some (k + int i)) [0 ..< length ots]"
  by (rule nth_equalityI) simp_all

lemma handleConfigure_exhausted:
  assumes "cur pr u = Some c" "\<not> safeMode pr" "preAssignPorts 10001 (p_outputs c) = Inl msg"
  shows "handleConfigure pr e u = (resetStatus (u\<lparr>ipModalOpen := False\<rparr>))\<lparr>thrown := Some msg\<rparr>"
  using assms by (simp add: handleConfigure_def)

text \<open>
  Claim C2. For a list of intents that all target one of the two delivery platforms: up
  to 100 intents get the ports 10001, 10002, ... in order (so distinct and within
  10001-10100) and nothing else of an intent changes; more than 100 intents end the
  pre-assignment with the range-exhausted exception, and then \<^verbatim>\<open>handleConfigure\<close> throws
  it, makes no call, and leaves every profile (so every intent) as it was.
\<close>

theorem C2_port_preassignment:
  assumes "\<forall>x\<in>set ots. isPlatform x"
  shows "if length ots \<le> 100
         then \<exists>ots'. preAssignPorts 10001 ots = Inr ots'
                \<and> map o_tempPort ots' = map (\<lambda>i. Some (10001 + int i)) [0 ..< length ots]
                \<and> distinct (map o_tempPort ots')
                \<and> (\<forall>q\<in>set (map o_tempPort ots'). \<exists>n. q = Some n \<and> 10001 \<le> n \<and> n \<le> 10100)
                \<and> map (\<lambda>x. x\<lparr>o_tempPort := None\<rparr>) ots' = map (\<lambda>x. x\<lparr>o_tempPort := None\<rparr>) ots
         else preAssignPorts 10001 ots = Inl ''Port range exhausted (10001-10100)''
                \<and> (\<forall>pr e u c. cur pr u = Some c \<and> \<not> safeMode pr \<and> p_outputs c = ots \<longrightarrow>
                      thrown (handleConfigure pr e u) = Some ''Port range exhausted (10001-10100)''
                      \<and> profiles (handleConfigure pr e u) = profiles u
                      \<and> calls (handleConfigure pr e u) = calls u)"
proof (cases "length ots \<le> 100")
  case True
  let ?r = "map (\<lambda>(i, x). x\<lparr>o_tempPort := Some (10001 + int i)\<rparr>) (zip [0 ..< length ots] ots)"
  have r: "preAssignPorts 10001 ots = Inr ?r"
    using preAssignPorts_platform[OF assms, of 10001] True by auto
  have ports: "map o_tempPort ?r = map (\<lambda>i. Some (10001 + int i)) [0 ..< length ots]"
    by (rule tempPorts_sequential)
  have dist: "distinct (map o_tempPort ?r)"
    unfolding ports by (simp add: distinct_map inj_on_def)
  have rng: "\<forall>q\<in>set (map o_tempPort ?r). \<exists>n. q = Some n \<and> 10001 \<le> n \<and> n \<le> 10100"
    unfolding ports using True by auto
  have same: "map (\<lambda>x. x\<lparr>o_tempPort := None\<rparr>) ?r = map (\<lambda>x. x\<lparr>o_tempPort := None\<rparr>) ots"
    by (rule nth_equalityI) simp_all
  have "\<exists>ots'. preAssignPorts 10001 ots = Inr ots'
                \<and> map o_tempPort ots' = map (\<lambda>i. Some (10001 + int i)) [0 ..< length ots]
                \<and> distinct (map o_tempPort ots')
                \<and> (\<forall>q\<in>set (map o_tempPort ots'). \<exists>n. q = Some n \<and> 10001 \<le> n \<and> n \<le> 10100)
                \<and> map (\<lambda>x. x\<lparr>o_tempPort := None\<rparr>) ots' = map (\<lambda>x. x\<lparr>o_tempPort := None\<rparr>) ots"
    using r ports dist rng same by blast
  then show ?thesis using True by (simp only: if_True)
next
  case False
  have r: "preAssignPorts 10001 ots = Inl ''Port range exhausted (10001-10100)''"
    using preAssignPorts_platform[OF assms, of 10001] False by auto
  show ?thesis
    using False r
    by (auto simp: handleConfigure_exhausted resetStatus_def)
qed


theorem C2_port_preassignment_witness:
  "(\<exists>ots'. preAssignPorts 10001 [ex_tellyo_intent, ex_cloudport_intent] = Inr ots'
       \<and> map o_tempPort ots' = [Some 10001, Some 10002])
   \<and> preAssignPorts 10001 (replicate 101 ex_tellyo_intent) = Inl ''Port range exhausted (10001-10100)''
   \<and> profiles (handleConfigure ex_props ex_env
         (ex_ui\<lparr>profiles := [ex_profile\<lparr>p_outputs := replicate 101 ex_tellyo_intent\<rparr>]\<rparr>))
       = [ex_profile\<lparr>p_outputs := replicate 101 ex_tellyo_intent\<rparr>]"
proof -
  have h1: "\<forall>x\<in>set [ex_tellyo_intent, ex_cloudport_intent]. isPlatform x"
    by (simp add: isPlatform_def ex_tellyo_intent_def ex_cloudport_intent_def)
  have h2: "\<forall>x\<in>set (replicate 101 ex_tellyo_intent). isPlatform x"
    by (simp add: isPlatform_def ex_tellyo_intent_def)
  let ?u = "ex_ui\<lparr>profiles := [ex_profile\<lparr>p_outputs := replicate 101 ex_tellyo_intent\<rparr>]\<rparr>"
  have c: "cur ex_props ?u = Some (ex_profile\<lparr>p_outputs := replicate 101 ex_tellyo_intent\<rparr>)"
    by (simp add: cur_def ex_props_def ex_ui_def ex_profile_def)
  have s: "\<not> safeMode ex_props" by (simp add: ex_props_def)
  from C2_port_preassignment[OF h1]
  obtain ots' where "preAssignPorts 10001 [ex_tellyo_intent, ex_cloudport_intent] = Inr ots'"
    and "map o_tempPort ots' = map (\<lambda>i. Some (10001 + int i)) [0 ..< length [ex_tellyo_intent, ex_cloudport_intent]]"
    by (auto simp del: preAssignPorts.simps)
  then have a: "\<exists>ots'. preAssignPorts 10001 [ex_tellyo_intent, ex_cloudport_intent] = Inr ots'
       \<and> map o_tempPort ots' = [Some 10001, Some 10002]"
    by (simp add: upt_conv_Cons del: preAssignPorts.simps)
  have len: "\<not> length (replicate 101 ex_tellyo_intent) \<le> 100" by simp
  note bb = C2_port_preassignment[OF h2, unfolded if_not_P[OF len]]
  have po: "p_outputs (ex_profile\<lparr>p_outputs := replicate 101 ex_tellyo_intent\<rparr>) = replicate 101 ex_tellyo_intent"
    by simp
  have pu: "profiles ?u = [ex_profile\<lparr>p_outputs := replicate 101 ex_tellyo_intent\<rparr>]"
    by simp
  from bb c s po have "profiles (handleConfigure ex_props ex_env ?u) = profiles ?u"
    by blast
  with pu have d: "profiles (handleConfigure ex_props ex_env ?u) = [ex_profile\<lparr>p_outputs := replicate 101 ex_tellyo_intent\<rparr>]"
    by (simp only:)
  from a bb d show ?thesis by blast
qed

section \<open>The confirmation poller (claim C3)\<close>

text \<open>For any delay sequence: one wait per delay used, each followed by one fetch.\<close>

lemma confirmLoop_trace_shape:
  "\<exists>k \<le> length ds. \<exists>fin.
      cf_trace (fst (confirmLoop slp fetch check ds tr w))
        = tr @ concat (map (\<lambda>d. [Sleep d, Fetch]) (take k ds)) @ fin
      \<and> (fin = [] \<and> cf_ok (fst (confirmLoop slp fetch check ds tr w)) \<and> 0 < k
           \<or> fin = [Fetch] \<and> k = length ds)"
proof (induction ds arbitrary: tr w)
  case Nil
  then show ?case by (cases "fetch w") simp
next
  case (Cons d ds)
  obtain s w' where f: "fetch (slp d w) = (s, w')" by (cases "fetch (slp d w)")
  show ?case
  proof (cases "check s")
    case True
    have "cf_trace (fst (confirmLoop slp fetch check (d # ds) tr w))
            = tr @ concat (map (\<lambda>d. [Sleep d, Fetch]) (take 1 (d # ds))) @ []"
      using f True by simp
    moreover have "cf_ok (fst (confirmLoop slp fetch check (d # ds) tr w))"
      using f True by simp
    ultimately show ?thesis
      by (intro exI[of _ 1] exI[of _ "[]"]) simp
  next
    case False
    from Cons.IH[of "tr @ [Sleep d, Fetch]" w']
    obtain k fin where k: "k \<le> length ds"
      and t: "cf_trace (fst (confirmLoop slp fetch check ds (tr @ [Sleep d, Fetch]) w'))
                = (tr @ [Sleep d, Fetch]) @ concat (map (\<lambda>d. [Sleep d, Fetch]) (take k ds)) @ fin"
      and c: "fin = [] \<and> cf_ok (fst (confirmLoop slp fetch check ds (tr @ [Sleep d, Fetch]) w')) \<and> 0 < k
              \<or> fin = [Fetch] \<and> k = length ds"
      by blast
    have eq: "confirmLoop slp fetch check (d # ds) tr w
                = confirmLoop slp fetch check ds (tr @ [Sleep d, Fetch]) w'"
      using f False by simp
    show ?thesis
      unfolding eq using k t c
      by (intro exI[of _ "Suc k"] exI[of _ fin]) auto
  qed
qed

text \<open>
  Claim C3. With the configured delays 300, 600, 1200 (ascending), the poller sleeps for
  a delay and then fetches, and returns \<^verbatim>\<open>ok = true\<close> with the state of the first fetch
  that satisfies the predicate: after one wait, or after exactly two waits when the
  predicate first holds at the second fetch, or after three. When none of the three
  fetches satisfies it, one more fetch follows without a wait and \<^verbatim>\<open>ok\<close> is the
  predicate on that last state (\<^verbatim>\<open>false\<close> when the change never shows).
\<close>

theorem C3_confirmation_poller:
  assumes "fetch (slp 300 w) = (s1, w1)"
      and "fetch (slp 600 w1) = (s2, w2)"
      and "fetch (slp 1200 w2) = (s3, w3)"
      and "fetch w3 = (s4, w4)"
  shows "OUTPUT_CONFIRM_DELAYS = [300, 600, 1200] \<and> sorted OUTPUT_CONFIRM_DELAYS
     \<and> confirmOutputsState slp fetch check w =
         (if check s1
            then (\<lparr>cf_ok = True, cf_outs = s1, cf_trace = [Sleep 300, Fetch]\<rparr>, w1)
          else if check s2
            then (\<lparr>cf_ok = True, cf_outs = s2, cf_trace = [Sleep 300, Fetch, Sleep 600, Fetch]\<rparr>, w2)
          else if check s3
            then (\<lparr>cf_ok = True, cf_outs = s3,
                   cf_trace = [Sleep 300, Fetch, Sleep 600, Fetch, Sleep 1200, Fetch]\<rparr>, w3)
          else (\<lparr>cf_ok = check s4, cf_outs = s4,
                  cf_trace = [Sleep 300, Fetch, Sleep 600, Fetch, Sleep 1200, Fetch, Fetch]\<rparr>, w4))"
  using assms by (simp add: confirmOutputsState_def OUTPUT_CONFIRM_DELAYS_def)

text \<open>A device on which the change shows at the second read.\<close>

theorem C3_confirmation_poller_witness:
  "confirmOutputsState (\<lambda>d w. w) (\<lambda>w. (w, Suc w)) (\<lambda>s. 1 \<le> s) (0::nat)
     = (\<lparr>cf_ok = True, cf_outs = 1, cf_trace = [Sleep 300, Fetch, Sleep 600, Fetch]\<rparr>, 2)
   \<and> confirmOutputsState (\<lambda>d w. w) (\<lambda>w. (w, Suc w)) (\<lambda>s. False) (0::nat)
     = (\<lparr>cf_ok = False, cf_outs = 3,
          cf_trace = [Sleep 300, Fetch, Sleep 600, Fetch, Sleep 1200, Fetch, Fetch]\<rparr>, 4)"
  using C3_confirmation_poller[of "\<lambda>w. (w, Suc w)" "\<lambda>d w. w" 0 0 1 1 2 2 3 3 4 "\<lambda>s. 1 \<le> s"]
        C3_confirmation_poller[of "\<lambda>w. (w, Suc w)" "\<lambda>d w. w" 0 0 1 1 2 2 3 3 4 "\<lambda>s. False"]
  by (simp add: numeral_2_eq_2 numeral_3_eq_3 eval_nat_numeral)

section \<open>The stream url of the Tellyo payload (claim C10)\<close>

lemma fold_max_ge: "x \<in> set xs \<Longrightarrow> x \<le> fold max xs (a::nat)"
proof (induction xs arbitrary: a)
  case Nil then show ?case by simp
next
  case (Cons y ys)
  have mono: "\<And>b. b \<le> fold max ys (b::nat)"
  proof -
    fix b :: nat show "b \<le> fold max ys b"
      by (induction ys arbitrary: b) (auto intro: order_trans[OF max.cobounded2])
  qed
  from Cons show ?case
    by (auto intro: order_trans[OF max.cobounded1 mono])
qed

lemma fold_max_bound: "(\<forall>x\<in>set xs. x \<le> b) \<Longrightarrow> a \<le> b \<Longrightarrow> fold max xs (a::nat) \<le> b"
  by (induction xs arbitrary: a) auto

lemma fold_max_Max: "xs \<noteq> [] \<Longrightarrow> fold max xs (0::nat) = Max (set xs)"
proof -
  assume ne: "xs \<noteq> []"
  have ub: "fold max xs 0 \<le> Max (set xs)"
    by (rule fold_max_bound) (use ne in auto)
  have "Max (set xs) \<in> set xs" using ne by (intro Max_in) auto
  then have "Max (set xs) \<le> fold max xs 0" by (rule fold_max_ge)
  with ub show ?thesis by simp
qed

lemma usedPorts_set:
  "set (usedPorts chans) =
     {p. \<exists>c\<in>set chans. extractPort (ch_streamUrl c) = Some (Exact p) \<and> 10006 \<le> p \<and> p < 10100}"
proof -
  have "\<And>p. p \<in> set (usedPorts chans) \<longleftrightarrow>
          (\<exists>c\<in>set chans. extractPort (ch_streamUrl c) = Some (Exact p) \<and> 10006 \<le> p \<and> p < 10100)"
    by (induction chans)
       (auto simp: usedPorts_def PORT_MIN_def PORT_MAX_def split: option.splits portnum.splits)
  then show ?thesis by blast
qed

text \<open>The port computed in step 2 never leaves the range, so the wrap never applies to it.\<close>

lemma nextPort_range: "10006 \<le> nextPort chans \<and> nextPort chans \<le> 10100"
proof (cases "usedPorts chans = []")
  case True
  then show ?thesis by (simp add: nextPort_def PORT_MIN_def)
next
  case False
  have "\<forall>x\<in>set (usedPorts chans). x \<le> 10099" by (auto simp: usedPorts_set)
  then have ub: "fold max (usedPorts chans) 0 \<le> 10099" by (rule fold_max_bound) simp
  obtain x where x: "x \<in> set (usedPorts chans)" using False by (cases "usedPorts chans") auto
  then have "10006 \<le> x" by (auto simp: usedPorts_set)
  with fold_max_ge[OF x, of 0] have lb: "10006 \<le> fold max (usedPorts chans) 0" by simp
  from ub lb False show ?thesis by (simp add: nextPort_def Let_def)
qed

lemma wrapPort_nextPort: "wrapPort (nextPort chans) = nextPort chans"
  using nextPort_range[of chans] by (simp add: wrapPort_def PORT_MAX_def)

text \<open>Step 1 keeps no port exactly when the claim's case (a) does not apply.\<close>

lemma existingPort_None_iff:
  "existingPort chans cid = None \<longleftrightarrow>
     (\<forall>ch url pn. truthy cid \<and> find_first (\<lambda>c. ch_id c = cid) chans = Some ch
         \<and> ch_streamUrl ch = Some url \<and> extractPort (Some url) = Some pn \<longrightarrow> pn = Exact 0)"
  by (auto simp: existingPort_def extractPort_def split: option.splits portnum.splits if_splits)

text \<open>
  Claim C10, as the code has it. \<^verbatim>\<open>buildTellyoChannelPayload\<close> (given the required Tellyo
  profile name) keeps a configured stream url and generates one only for a url that is
  empty or white space. Without a device address the generated url is empty. With one,
  (a) the port of the channel whose id is supplied is reused when that channel's url holds
  a port other than 0 that is read exactly; (b) when step (a) keeps no port and no channel
  holds port 10100, the port is the largest one that the channels use within
  10006 \<le> p < 10100, plus one, or 10006 when no such port is in use.
\<close>

theorem C10_tellyo_stream_url:
  "(t_profile config \<noteq> [] \<longrightarrow>
      buildTellyoChannelPayload config ip chans cid =
        Inr \<lparr>tp_name = t_channelName config, tp_profile = t_profile config,
             tp_streamUrl = (if trim (t_streamUrl config) = [] then getSrtUrl ip chans cid
                             else Url (t_streamUrl config))\<rparr>)
   \<and> getSrtUrl [] chans cid = Url []
   \<and> (ip \<noteq> [] \<and> truthy cid \<and> find_first (\<lambda>c. ch_id c = cid) chans = Some ch
        \<and> ch_streamUrl ch = Some url \<and> extractPort (Some url) = Some (Exact p) \<and> p \<noteq> 0 \<longrightarrow>
      getSrtUrl ip chans cid = Url (srtUrl ip p))
   \<and> (ip \<noteq> []
        \<and> (\<forall>ch' url' pn. truthy cid \<and> find_first (\<lambda>c. ch_id c = cid) chans = Some ch'
               \<and> ch_streamUrl ch' = Some url' \<and> extractPort (Some url') = Some pn \<longrightarrow> pn = Exact 0)
        \<and> (\<forall>c\<in>set chans. extractPort (ch_streamUrl c) \<noteq> Some (Exact 10100)) \<longrightarrow>
      getSrtUrl ip chans cid =
        Url (srtUrl ip (if usedPorts chans = [] then 10006 else Max (set (usedPorts chans)) + 1))
      \<and> set (usedPorts chans) =
          {q. \<exists>c\<in>set chans. extractPort (ch_streamUrl c) = Some (Exact q) \<and> 10006 \<le> q \<and> q < 10100})"
proof (intro conjI)
  show "t_profile config \<noteq> [] \<longrightarrow>
           buildTellyoChannelPayload config ip chans cid =
             Inr \<lparr>tp_name = t_channelName config, tp_profile = t_profile config,
                  tp_streamUrl = (if trim (t_streamUrl config) = [] then getSrtUrl ip chans cid
                                  else Url (t_streamUrl config))\<rparr>"
    by (auto simp: buildTellyoChannelPayload_def trim_def)
  show "getSrtUrl [] chans cid = Url []"
    by (simp add: getSrtUrl_def)
  show "ip \<noteq> [] \<and> truthy cid \<and> find_first (\<lambda>c. ch_id c = cid) chans = Some ch
           \<and> ch_streamUrl ch = Some url \<and> extractPort (Some url) = Some (Exact p) \<and> p \<noteq> 0 \<longrightarrow>
           getSrtUrl ip chans cid = Url (srtUrl ip p)"
    by (auto simp: getSrtUrl_def existingPort_def extractPort_def split: if_splits)
  show "ip \<noteq> []
        \<and> (\<forall>ch' url' pn. truthy cid \<and> find_first (\<lambda>c. ch_id c = cid) chans = Some ch'
               \<and> ch_streamUrl ch' = Some url' \<and> extractPort (Some url') = Some pn \<longrightarrow> pn = Exact 0)
        \<and> (\<forall>c\<in>set chans. extractPort (ch_streamUrl c) \<noteq> Some (Exact 10100)) \<longrightarrow>
      getSrtUrl ip chans cid =
        Url (srtUrl ip (if usedPorts chans = [] then 10006 else Max (set (usedPorts chans)) + 1))
      \<and> set (usedPorts chans) =
          {q. \<exists>c\<in>set chans. extractPort (ch_streamUrl c) = Some (Exact q) \<and> 10006 \<le> q \<and> q < 10100}"
  proof (intro impI)
    assume h: "ip \<noteq> []
        \<and> (\<forall>ch' url' pn. truthy cid \<and> find_first (\<lambda>c. ch_id c = cid) chans = Some ch'
               \<and> ch_streamUrl ch' = Some url' \<and> extractPort (Some url') = Some pn \<longrightarrow> pn = Exact 0)
        \<and> (\<forall>c\<in>set chans. extractPort (ch_streamUrl c) \<noteq> Some (Exact 10100))"
    then have ep: "existingPort chans cid = None"
      unfolding existingPort_None_iff by blast
    from h have ip: "ip \<noteq> []" by blast
    have "getSrtUrl ip chans cid = Url (srtUrl ip (nextPort chans))"
      using ip ep by (simp add: getSrtUrl_def wrapPort_nextPort)
    then have "getSrtUrl ip chans cid =
        Url (srtUrl ip (if usedPorts chans = [] then 10006 else Max (set (usedPorts chans)) + 1))"
      by (simp add: nextPort_def Let_def PORT_MIN_def fold_max_Max)
    with usedPorts_set[of chans]
    show "getSrtUrl ip chans cid =
        Url (srtUrl ip (if usedPorts chans = [] then 10006 else Max (set (usedPorts chans)) + 1))
      \<and> set (usedPorts chans) =
          {q. \<exists>c\<in>set chans. extractPort (ch_streamUrl c) = Some (Exact q) \<and> 10006 \<le> q \<and> q < 10100}"
      by blast
  qed
qed

lemmas port_eval = extractPort_def match_port_def is_digit_def parseInt_def digits_val_def digit_val_def

text \<open>The last number read exactly, and the first one that is not.\<close>

lemma parseInt_boundary:
  "parseInt ''9007199254740991'' = Exact 9007199254740991
   \<and> parseInt ''9007199254740992'' = Rounded ''9007199254740992''
   \<and> parseInt ''0010042'' = Exact 10042"
  by (simp add: parseInt_def digits_val_def digit_val_def)

text \<open>
  An empty url generated on the first port; a configured url kept; the port 10042 of the
  channel being edited reused; the next port after 10006 and 10050.
\<close>

theorem C10_tellyo_stream_url_witness:
  "buildTellyoChannelPayload
      \<lparr>t_channelName = ''studio-a'', t_profile = ''hd'', t_streamUrl = [],
        t_lastChannelId = Undefined, t_lastStreamUrl = None\<rparr>
      ''203.0.113.7'' [] Undefined
     = Inr \<lparr>tp_name = ''studio-a'', tp_profile = ''hd'', tp_streamUrl = Url ''srt://203.0.113.7:10006''\<rparr>
   \<and> buildTellyoChannelPayload
      \<lparr>t_channelName = ''studio-a'', t_profile = ''hd'', t_streamUrl = ''srt://192.0.2.1:9000'',
        t_lastChannelId = Undefined, t_lastStreamUrl = None\<rparr>
      ''203.0.113.7'' [] Undefined
     = Inr \<lparr>tp_name = ''studio-a'', tp_profile = ''hd'', tp_streamUrl = Url ''srt://192.0.2.1:9000''\<rparr>
   \<and> getSrtUrl ''203.0.113.7'' [ex_channel 7 ''srt://198.51.100.2:10042?mode=caller''] (Num 7)
     = Url ''srt://203.0.113.7:10042''
   \<and> getSrtUrl ''203.0.113.7''
        [ex_channel 7 ''srt://198.51.100.2:10006'', ex_channel 8 ''srt://198.51.100.2:10050'',
         ex_channel 9 ''srt://198.51.100.2:9000''] Undefined
     = Url ''srt://203.0.113.7:10051''"
proof -
  let ?cfg = "\<lparr>t_channelName = ''studio-a'', t_profile = ''hd'', t_streamUrl = [],
        t_lastChannelId = Undefined, t_lastStreamUrl = None\<rparr>"
  let ?cfg2 = "\<lparr>t_channelName = ''studio-a'', t_profile = ''hd'', t_streamUrl = ''srt://192.0.2.1:9000'',
        t_lastChannelId = Undefined, t_lastStreamUrl = None\<rparr>"
  let ?one = "[ex_channel 7 ''srt://198.51.100.2:10042?mode=caller'']"
  let ?three = "[ex_channel 7 ''srt://198.51.100.2:10006'', ex_channel 8 ''srt://198.51.100.2:10050'',
         ex_channel 9 ''srt://198.51.100.2:9000'']"
  have ex3: "extractPort (Some ''srt://198.51.100.2:10006'') = Some (Exact 10006)"
    "extractPort (Some ''srt://198.51.100.2:10050'') = Some (Exact 10050)"
    "extractPort (Some ''srt://198.51.100.2:9000'') = Some (Exact 9000)"
    by (simp_all add: port_eval)
  have up3: "usedPorts ?three = [10006, 10050]"
    by (simp add: usedPorts_def ex_channel_def ex3 PORT_MIN_def PORT_MAX_def)
  have free3: "\<forall>c\<in>set ?three. extractPort (ch_streamUrl c) \<noteq> Some (Exact 10100)"
    by (simp add: ex_channel_def ex3)
  note gen = C10_tellyo_stream_url[of ?cfg "''203.0.113.7''" "[]" Undefined undefined undefined 0,
      THEN conjunct1]
  note keep = C10_tellyo_stream_url[of ?cfg2 "''203.0.113.7''" "[]" Undefined undefined undefined 0,
      THEN conjunct1]
  note fresh = C10_tellyo_stream_url[of ?cfg "''203.0.113.7''" "[]" Undefined undefined undefined 0,
      THEN conjunct2, THEN conjunct2, THEN conjunct2]
  note reuse = C10_tellyo_stream_url[of ?cfg "''203.0.113.7''" ?one "Num 7"
            "ex_channel 7 ''srt://198.51.100.2:10042?mode=caller''"
            "''srt://198.51.100.2:10042?mode=caller''" 10042, THEN conjunct2, THEN conjunct2, THEN conjunct1]
  note nxt = C10_tellyo_stream_url[of ?cfg "''203.0.113.7''" ?three Undefined undefined undefined 0,
      THEN conjunct2, THEN conjunct2, THEN conjunct2]
  have "getSrtUrl ''203.0.113.7'' [] Undefined = Url (srtUrl ''203.0.113.7'' 10006)"
    using fresh by (simp add: usedPorts_def)
  then have g0: "getSrtUrl ''203.0.113.7'' [] Undefined = Url ''srt://203.0.113.7:10006''"
    by (simp add: srtUrl_def decimal.simps)
  have a: "buildTellyoChannelPayload ?cfg ''203.0.113.7'' [] Undefined
     = Inr \<lparr>tp_name = ''studio-a'', tp_profile = ''hd'', tp_streamUrl = Url ''srt://203.0.113.7:10006''\<rparr>"
    using gen g0 by (simp add: trim_def)
  have a2: "buildTellyoChannelPayload ?cfg2 ''203.0.113.7'' [] Undefined
     = Inr \<lparr>tp_name = ''studio-a'', tp_profile = ''hd'', tp_streamUrl = Url ''srt://192.0.2.1:9000''\<rparr>"
    using keep by (simp add: trim_def is_space_def)
  have "getSrtUrl ''203.0.113.7'' ?one (Num 7) = Url (srtUrl ''203.0.113.7'' 10042)"
    using reuse by (simp add: ex_channel_def port_eval)
  then have b: "getSrtUrl ''203.0.113.7'' ?one (Num 7) = Url ''srt://203.0.113.7:10042''"
    by (simp add: srtUrl_def decimal.simps)
  have "getSrtUrl ''203.0.113.7'' ?three Undefined = Url (srtUrl ''203.0.113.7'' 10051)"
    using nxt free3 up3 by simp
  then have c: "getSrtUrl ''203.0.113.7'' ?three Undefined = Url ''srt://203.0.113.7:10051''"
    by (simp add: srtUrl_def decimal.simps)
  from a a2 b c show ?thesis by (simp only: simp_thms)
qed

text \<open>
  Where the claim as worded fails. A channel whose url holds port 0: the id is supplied
  and the port parses, yet \<^verbatim>\<open>if (existingPort)\<close> does not keep it. A configured url of
  white space (a blank and U+00A0) is not empty, yet a url is generated. Without a device
  address no port is assigned at all. A port of sixteen digits is reused as the double
  read from it.
\<close>

theorem C10_stream_url_counterexample:
  "extractPort (Some ''srt://198.51.100.2:0'') = Some (Exact 0)
   \<and> getSrtUrl ''203.0.113.7'' [ex_channel 7 ''srt://198.51.100.2:0''] (Num 7)
       = Url ''srt://203.0.113.7:10006''
   \<and> buildTellyoChannelPayload
        \<lparr>t_channelName = ''studio-a'', t_profile = ''hd'', t_streamUrl = [CHR 0x20, CHR 0xA0],
          t_lastChannelId = Undefined, t_lastStreamUrl = None\<rparr>
        ''203.0.113.7'' [] Undefined
       = Inr \<lparr>tp_name = ''studio-a'', tp_profile = ''hd'', tp_streamUrl = Url ''srt://203.0.113.7:10006''\<rparr>
   \<and> getSrtUrl [] [ex_channel 7 ''srt://198.51.100.2:10042''] (Num 7) = Url []
   \<and> getSrtUrl ''203.0.113.7'' [ex_channel 7 ''srt://198.51.100.2:9007199254740993''] (Num 7)
       = UrlRounded ''203.0.113.7'' ''9007199254740993''"
proof -
  have a: "extractPort (Some ''srt://198.51.100.2:0'') = Some (Exact 0)"
    by (simp add: port_eval)
  have ep: "existingPort [ex_channel 7 ''srt://198.51.100.2:0''] (Num 7) = None"
    by (simp add: existingPort_def ex_channel_def a)
  have up: "usedPorts [ex_channel 7 ''srt://198.51.100.2:0''] = []"
    by (simp add: usedPorts_def ex_channel_def a PORT_MIN_def PORT_MAX_def)
  have b: "getSrtUrl ''203.0.113.7'' [ex_channel 7 ''srt://198.51.100.2:0''] (Num 7)
       = Url ''srt://203.0.113.7:10006''"
    by (simp add: getSrtUrl_def ep nextPort_def up wrapPort_def PORT_MIN_def PORT_MAX_def srtUrl_def
        decimal.simps)
  have g0: "getSrtUrl ''203.0.113.7'' [] Undefined = Url ''srt://203.0.113.7:10006''"
    by (simp add: getSrtUrl_def existingPort_def nextPort_def usedPorts_def wrapPort_def PORT_MIN_def
        PORT_MAX_def srtUrl_def decimal.simps)
  have c: "buildTellyoChannelPayload
        \<lparr>t_channelName = ''studio-a'', t_profile = ''hd'', t_streamUrl = [CHR 0x20, CHR 0xA0],
          t_lastChannelId = Undefined, t_lastStreamUrl = None\<rparr>
        ''203.0.113.7'' [] Undefined
       = Inr \<lparr>tp_name = ''studio-a'', tp_profile = ''hd'', tp_streamUrl = Url ''srt://203.0.113.7:10006''\<rparr>"
    by (simp add: buildTellyoChannelPayload_def trim_def is_space_def g0)
  have d: "getSrtUrl [] [ex_channel 7 ''srt://198.51.100.2:10042''] (Num 7) = Url []"
    by (simp add: getSrtUrl_def)
  have big: "extractPort (Some ''srt://198.51.100.2:9007199254740993'') = Some (Rounded ''9007199254740993'')"
    by (simp add: port_eval)
  have e: "getSrtUrl ''203.0.113.7'' [ex_channel 7 ''srt://198.51.100.2:9007199254740993''] (Num 7)
       = UrlRounded ''203.0.113.7'' ''9007199254740993''"
    by (simp add: getSrtUrl_def existingPort_def ex_channel_def big)
  from a b c d e show ?thesis by (simp only: simp_thms)
qed

text \<open>
  The range used up to its last port: 10100 is handed out again, and the wrap of the
  closing test does not happen.
\<close>

lemma getSrtUrl_range_exhausted:
  "getSrtUrl ''203.0.113.7''
     [ex_channel 7 ''srt://198.51.100.2:10099'', ex_channel 8 ''srt://198.51.100.2:10100''] Undefined
   = Url ''srt://203.0.113.7:10100''"
proof -
  have ex: "extractPort (Some ''srt://198.51.100.2:10099'') = Some (Exact 10099)"
    "extractPort (Some ''srt://198.51.100.2:10100'') = Some (Exact 10100)"
    by (simp_all add: port_eval)
  have up: "usedPorts [ex_channel 7 ''srt://198.51.100.2:10099'', ex_channel 8 ''srt://198.51.100.2:10100'']
      = [10099]"
    by (simp add: usedPorts_def ex_channel_def ex PORT_MIN_def PORT_MAX_def)
  show ?thesis
    by (simp add: getSrtUrl_def existingPort_def nextPort_def up wrapPort_def PORT_MAX_def srtUrl_def
        decimal.simps)
qed

section \<open>Bulk restart without an enabled output (claim C8)\<close>

lemma restartTargets_empty_iff:
  "restartTargets st = Some [] \<longleftrightarrow> st \<noteq> NullState \<and> (\<forall>x\<in>set (stateItems st). \<not> isEnabled x)"
  by (cases st) (auto simp: restartTargets_def stateItems_def filter_empty_conv)

text \<open>
  With Safe Mode off and an \<^verbatim>\<open>Outputs\<close> shadow in which no entry is enabled (as an array,
  as an object, or without a reported state), the bulk restart reads the shadows once,
  issues no write, and reports success: \<^verbatim>\<open>restart-ok\<close>, no error, the toast "No active
  outputs to restart.".
\<close>

lemma handleRestart_noop:
  assumes "\<not> safeMode pr"
      and "restartShadow (restartRead1 env) = Some outputsShadow"
      and "reported_state outputsShadow \<noteq> NullState"
      and "\<forall>x\<in>set (stateItems (reported_state outputsShadow)). \<not> isEnabled x"
  shows "calls (handleRestart pr env u) = calls u @ [DeviceShadows]
       \<and> filter is_write (calls (handleRestart pr env u)) = filter is_write (calls u)
       \<and> op (handleRestart pr env u) = ''restart-ok''
       \<and> err (handleRestart pr env u) = []
       \<and> toast (handleRestart pr env u) = ''No active outputs to restart.''
       \<and> profiles (handleRestart pr env u) = profiles u"
proof -
  have t: "restartTargets (reported_state outputsShadow) = Some []"
    using assms(3,4) by (simp add: restartTargets_empty_iff)
  have "handleRestart pr env u =
          (log_call [DeviceShadows] (u\<lparr>op := ''restart'', err := []\<rparr>))
            \<lparr>op := ''restart-ok'', toast := ''No active outputs to restart.''\<rparr>"
    using assms(1,2) t by (simp add: handleRestart_def Let_def)
  then show ?thesis by (simp add: log_call_def)
qed

text \<open>
  Claim C8, the failing input. An \<^verbatim>\<open>Outputs\<close> shadow whose reported state is \<^verbatim>\<open>null\<close> has no
  entry, so none is enabled; \<^verbatim>\<open>typeof null\<close> is \<^verbatim>\<open>'object'\<close>, \<^verbatim>\<open>Object.values(null)\<close> throws,
  and the restart ends in \<^verbatim>\<open>restart-err\<close> with an error text. No write is issued. The
  same shadow with an empty array, an empty object or no state at all restarts as a no-op.
\<close>

theorem C8_restart_null_state:
  "stateItems NullState = []
   \<and> op (handleRestart ex_props (ex_restart_env NullState) ex_ui) = ''restart-err''
   \<and> err (handleRestart ex_props (ex_restart_env NullState) ex_ui)
       = ''Restart failed: Cannot convert undefined or null to object''
   \<and> calls (handleRestart ex_props (ex_restart_env NullState) ex_ui) = [DeviceShadows]
   \<and> op (handleRestart ex_props (ex_restart_env (Arr [])) ex_ui) = ''restart-ok''
   \<and> op (handleRestart ex_props (ex_restart_env (Obj [])) ex_ui) = ''restart-ok''
   \<and> op (handleRestart ex_props (ex_restart_env Absent) ex_ui) = ''restart-ok''
   \<and> err (handleRestart ex_props (ex_restart_env (Obj [(''20'', ex_stopped)])) ex_ui) = []"
  by (simp add: stateItems_def handleRestart_def ex_props_def ex_restart_env_def restartShadow_def
      getShadow_def ex_shadow_def versionOr_def restartTargets_def isEnabled_def ex_stopped_def
      no_entry_def no_config_def log_call_def ex_ui_def Let_def)

text \<open>With an enabled entry the restart does write: the stop and then the start payload.\<close>

lemma handleRestart_writes:
  "filter is_write (calls (handleRestart ex_props
      (ex_restart_env (Arr [ex_stopped, ex_output 21 10002\<lparr>e_config := Some (no_config\<lparr>c_enable := Some True\<rparr>)\<rparr>])) ex_ui))
   = [UpdateShadow ''Outputs'' 3 [switchEntry False (ex_output 21 10002\<lparr>e_config := Some (no_config\<lparr>c_enable := Some True\<rparr>)\<rparr>)],
      UpdateShadow ''Outputs'' 3 [switchEntry True (ex_output 21 10002\<lparr>e_config := Some (no_config\<lparr>c_enable := Some True\<rparr>)\<rparr>)]]"
  by (simp add: handleRestart_def ex_props_def ex_restart_env_def restartShadow_def getShadow_def
      ex_shadow_def versionOr_def restartTargets_def isEnabled_def ex_stopped_def ex_output_def
      no_entry_def no_config_def log_call_def ex_ui_def Let_def)

section \<open>Safe Mode (claim C9)\<close>

lemma barred_refl: "barred u u"
  by (simp add: barred_def)

lemma barred_writeBlocked: "barred u (writeBlocked u)"
  by (simp add: barred_def writeBlocked_def)

text \<open>
  Claim C9, as the code has it. With Safe Mode on, no handler of the detail view makes a
  call, changes a profile, arms a deletion or touches a status. Restart, the device
  command and the output toggle signal the write-blocked handler and return; configure,
  the CLOUDPORT toggle and the two deletions signal it once their first guard has passed
  (a selected profile, a remembered channel or ingest id) and return silently otherwise.
\<close>

theorem C9_safe_mode_barrier:
  assumes "safeMode pr"
  shows "barred u (handleConfigure pr e u)
       \<and> blocked (handleConfigure pr e u) = (if cur pr u = None then blocked u else blocked u + 1)
       \<and> handleRestart pr re u = writeBlocked u
       \<and> doCmd pr res label payload u = writeBlocked u
       \<and> toggleOut pr slp fetch res it (u, w) = (writeBlocked u, w)
       \<and> barred u (deleteTellyoChannel pr u)
       \<and> blocked (deleteTellyoChannel pr u) =
            (case cur pr u of
               None \<Rightarrow> blocked u
             | Some c \<Rightarrow> if truthy (t_lastChannelId (p_tellyo c)) then blocked u + 1 else blocked u)
       \<and> barred u (toggleCloudport pr res u)
       \<and> blocked (toggleCloudport pr res u) =
            (case cur pr u of
               None \<Rightarrow> blocked u
             | Some c \<Rightarrow> if truthy (cp_lastIngestId (p_cloudport c)) then blocked u + 1 else blocked u)
       \<and> barred u (deleteCloudportIngest pr u)
       \<and> blocked (deleteCloudportIngest pr u) = (if cur pr u = None then blocked u else blocked u + 1)
       \<and> barred u (writeBlocked u) \<and> blocked (writeBlocked u) = blocked u + 1"
proof -
  have hc: "handleConfigure pr e u =
              (case cur pr u of None \<Rightarrow> u | Some c \<Rightarrow> writeBlocked (u\<lparr>ipModalOpen := False\<rparr>))"
    using assms by (simp add: handleConfigure_def split: option.splits)
  have dt: "deleteTellyoChannel pr u =
              (case cur pr u of
                 None \<Rightarrow> u
               | Some c \<Rightarrow> if truthy (t_lastChannelId (p_tellyo c)) then writeBlocked u else u)"
    using assms by (simp add: deleteTellyoChannel_def split: option.splits)
  have tc: "toggleCloudport pr res u =
              (case cur pr u of
                 None \<Rightarrow> u
               | Some c \<Rightarrow> if truthy (cp_lastIngestId (p_cloudport c)) then writeBlocked u else u)"
    using assms by (simp add: toggleCloudport_def Let_def split: option.splits)
  have dc: "deleteCloudportIngest pr u = (case cur pr u of None \<Rightarrow> u | Some c \<Rightarrow> writeBlocked u)"
    using assms by (simp add: deleteCloudportIngest_def split: option.splits)
  have 1: "barred u (handleConfigure pr e u)"
    unfolding hc by (simp add: barred_def writeBlocked_def split: option.splits)
  have 2: "blocked (handleConfigure pr e u) = (if cur pr u = None then blocked u else blocked u + 1)"
    unfolding hc by (simp add: writeBlocked_def split: option.splits)
  have 3: "handleRestart pr re u = writeBlocked u"
    using assms by (simp add: handleRestart_def)
  have 4: "doCmd pr res label payload u = writeBlocked u"
    using assms by (simp add: doCmd_def)
  have 5: "toggleOut pr slp fetch res it (u, w) = (writeBlocked u, w)"
    using assms by (simp add: toggleOut_def)
  have 6: "barred u (deleteTellyoChannel pr u)"
    unfolding dt by (simp add: barred_refl barred_writeBlocked split: option.splits)
  have 7: "blocked (deleteTellyoChannel pr u) =
            (case cur pr u of
               None \<Rightarrow> blocked u
             | Some c \<Rightarrow> if truthy (t_lastChannelId (p_tellyo c)) then blocked u + 1 else blocked u)"
    unfolding dt by (simp add: writeBlocked_def split: option.splits)
  have 8: "barred u (toggleCloudport pr res u)"
    unfolding tc by (simp add: barred_refl barred_writeBlocked split: option.splits)
  have 9: "blocked (toggleCloudport pr res u) =
            (case cur pr u of
               None \<Rightarrow> blocked u
             | Some c \<Rightarrow> if truthy (cp_lastIngestId (p_cloudport c)) then blocked u + 1 else blocked u)"
    unfolding tc by (simp add: writeBlocked_def split: option.splits)
  have 10: "barred u (deleteCloudportIngest pr u)"
    unfolding dc by (simp add: barred_refl barred_writeBlocked split: option.splits)
  have 11: "blocked (deleteCloudportIngest pr u) = (if cur pr u = None then blocked u else blocked u + 1)"
    unfolding dc by (simp add: writeBlocked_def split: option.splits)
  have 12: "barred u (writeBlocked u) \<and> blocked (writeBlocked u) = blocked u + 1"
    using barred_writeBlocked[of u] by (simp add: writeBlocked_def)
  from 1 2 3 4 5 6 7 8 9 10 11 12 show ?thesis by (simp only: simp_thms)
qed

theorem C9_safe_mode_barrier_witness:
  "calls (handleConfigure ex_safe_props ex_env ex_ui) = []
   \<and> profiles (handleConfigure ex_safe_props ex_env ex_ui) = [ex_profile]
   \<and> blocked (handleConfigure ex_safe_props ex_env ex_ui) = 1
   \<and> blocked (doCmd ex_safe_props None ''reboot'' ''reboot_device'' ex_ui) = 1
   \<and> calls (doCmd ex_safe_props None ''reboot'' ''reboot_device'' ex_ui) = []"
proof -
  have s: "safeMode ex_safe_props" by (simp add: ex_safe_props_def)
  have c: "cur ex_safe_props ex_ui \<noteq> None"
    by (simp add: cur_def ex_safe_props_def ex_props_def ex_ui_def ex_profile_def)
  note t = C9_safe_mode_barrier[OF s, where u = ex_ui and e = ex_env and res = None
      and label = "''reboot''" and payload = "''reboot_device''" and re = "ex_restart_env Absent"
      and slp = "\<lambda>d w. w" and fetch = "\<lambda>w::nat. ([], w)" and w = "0::nat"
      and it = "\<lparr>matchId = Num 20, m_enabled = False\<rparr>"]
  from t c have "barred ex_ui (handleConfigure ex_safe_props ex_env ex_ui)"
    and "blocked (handleConfigure ex_safe_props ex_env ex_ui) = blocked ex_ui + 1"
    and "doCmd ex_safe_props None ''reboot'' ''reboot_device'' ex_ui = writeBlocked ex_ui"
    by simp_all
  then show ?thesis
    by (simp add: barred_def writeBlocked_def ex_ui_def)
qed

text \<open>
  With no profile selected the handler returns at its first guard: Safe Mode is on and
  the write-blocked handler is not signalled.
\<close>

theorem C9_no_signal_counterexample:
  "safeMode (ex_safe_props\<lparr>selPid := ''none''\<rparr>)
   \<and> blocked (handleConfigure (ex_safe_props\<lparr>selPid := ''none''\<rparr>) ex_env ex_ui) = blocked ex_ui
   \<and> blocked (deleteTellyoChannel ex_safe_props ex_ui) = blocked ex_ui"
  by (simp add: handleConfigure_def deleteTellyoChannel_def cur_def ex_safe_props_def ex_props_def
      ex_ui_def ex_profile_def)

text \<open>With Safe Mode off the same reboot command is sent.\<close>

lemma doCmd_sends:
  "calls (doCmd ex_props None ''reboot'' ''reboot_device'' ex_ui) = [PostCommand None ''reboot_device'']"
  by (simp add: doCmd_def ex_props_def ex_ui_def log_call_def)

section \<open>The two downstream blocks keep to themselves\<close>

lemmas tellyo_unfold = configureTellyo_def log_call_def rememberChannel_def setProfiles_def Let_def
lemmas cloudport_unfold = configureCloudport_def log_call_def rememberIngest_def setProfiles_def Let_def

lemma configureTellyo_cloudStatus:
  "cloudStatus (configureTellyo pr t c no u) = cloudStatus u"
  by (simp add: tellyo_unfold split: list.splits option.splits sum.splits)

lemma configureTellyo_err:
  "err (configureTellyo pr t c no u) = err u"
  by (simp add: tellyo_unfold split: list.splits option.splits sum.splits)

lemma configureTellyo_calls:
  "calls (configureTellyo pr t c no u)
     = calls u @ calls (configureTellyo pr t c no (u'\<lparr>calls := []\<rparr>))"
  by (simp add: tellyo_unfold split: list.splits option.splits sum.splits)

lemma configureTellyo_fresh_calls:
  "list_all (\<lambda>x. \<not> isCloudportCall x) (calls (configureTellyo pr t c no (u\<lparr>calls := []\<rparr>)))"
  by (simp add: tellyo_unfold split: list.splits option.splits sum.splits)

lemma configureTellyo_only_tellyo_calls:
  "filter isCloudportCall (calls (configureTellyo pr t c no u)) = filter isCloudportCall (calls u)"
  using configureTellyo_fresh_calls[of pr t c no u]
  by (subst configureTellyo_calls[where u' = u]) (simp add: filter_empty_conv list_all_iff)

lemma configureTellyo_labels:
  "map labels (profiles (configureTellyo pr t c no u)) = map labels (profiles u)"
  by (simp add: tellyo_unfold labels_def comp_def split: list.splits option.splits sum.splits)

lemma configureCloudport_tellyoStatus:
  "tellyoStatus (configureCloudport pr env c no u) = tellyoStatus u"
  by (simp add: cloudport_unfold split: list.splits option.splits sum.splits)

lemma configureCloudport_err:
  "err (configureCloudport pr env c no u) = err u"
  by (simp add: cloudport_unfold split: list.splits option.splits sum.splits)

lemma configureCloudport_calls:
  "calls (configureCloudport pr env c no u)
     = calls u @ calls (configureCloudport pr env c no (u'\<lparr>calls := []\<rparr>))"
  by (simp add: cloudport_unfold split: list.splits option.splits sum.splits)

lemma configureCloudport_fresh_calls:
  "list_all (\<lambda>x. \<not> isTellyoCall x) (calls (configureCloudport pr env c no (u\<lparr>calls := []\<rparr>)))"
  by (simp add: cloudport_unfold split: list.splits option.splits sum.splits)

lemma configureCloudport_only_cloudport_calls:
  "filter isTellyoCall (calls (configureCloudport pr env c no u)) = filter isTellyoCall (calls u)"
  using configureCloudport_fresh_calls[of pr env c no u]
  by (subst configureCloudport_calls[where u' = u]) (simp add: filter_empty_conv list_all_iff)

lemma configureCloudport_cloudStatus:
  "cloudStatus (configureCloudport pr env c no u) = cloudStatus (configureCloudport pr env c no u')"
  by (simp add: cloudport_unfold split: list.splits option.splits sum.splits)

lemma configureCloudport_labels:
  "map labels (profiles (configureCloudport pr env c no u)) = map labels (profiles u)"
  by (simp add: cloudport_unfold labels_def comp_def split: list.splits option.splits sum.splits)

lemma handleConfigure_device_failure:
  assumes "cur pr u = Some c" "\<not> safeMode pr"
      and "preAssignPorts 10001 (p_outputs c) = Inr newOutputs"
      and "videonPhase pr (dev e) c newOutputs = (cs, Inl msg)"
  shows "handleConfigure pr e u =
           (if bypassVideonError pr
            then configureDownstream pr e c newOutputs
                   ((log_call cs (resetStatus (u\<lparr>ipModalOpen := False\<rparr>)))
                      \<lparr>err := ''Videon config failed (Bypassed): '' @ msg\<rparr>)
            else (log_call cs (resetStatus (u\<lparr>ipModalOpen := False\<rparr>)))
                   \<lparr>err := ''Videon config failed: '' @ msg,
                    cloudStatus := setStatus Idle [], tellyoStatus := setStatus Idle []\<rparr>)"
  using assms by (simp add: handleConfigure_def Let_def)

text \<open>The device steps call the device only.\<close>

lemma videonPhase_device_calls:
  "filter (\<lambda>x. isTellyoCall x \<or> isCloudportCall x) (fst (videonPhase pr env c newOutputs)) = []"
  by (simp add: videonPhase_def Let_def split: option.splits sum.splits prod.splits)

section \<open>The encoder check (claim C5)\<close>







section \<open>Matching the reported outputs (claim C6)\<close>

text \<open>
  The walk on the claim's example: the intent holds the provisional port 10001 and the
  device reports the listener with id 20 on that port. The port matches as a number and
  as the text \<^verbatim>\<open>"10001"\<close>; an entry that is not of type \<^verbatim>\<open>srt\<close> is passed over; a port that
  names an inherited property ends the walk with the runtime's \<^verbatim>\<open>TypeError\<close>.
\<close>

lemma matchAll_example:
  "matchAll ''TypeError'' [''10001'' \<mapsto> 0] [ex_tellyo_intent\<lparr>o_tempPort := Some 10001\<rparr>] [ex_output 20 10001]
     = Inr [ex_tellyo_intent\<lparr>o_tempPort := Some 10001, o_videonId := Num 20\<rparr>]
   \<and> matchAll ''TypeError'' [''10001'' \<mapsto> 0] [ex_tellyo_intent\<lparr>o_tempPort := Some 10001\<rparr>]
       [no_entry\<lparr>e_id := Num 20, e_type := Some ''srt'',
          e_config := Some (no_config\<lparr>c_destination_port := Str ''10001''\<rparr>)\<rparr>]
     = Inr [ex_tellyo_intent\<lparr>o_tempPort := Some 10001, o_videonId := Num 20\<rparr>]
   \<and> matchAll ''TypeError'' [''10001'' \<mapsto> 0] [ex_tellyo_intent\<lparr>o_tempPort := Some 10001\<rparr>]
       [no_entry\<lparr>e_id := Num 20, e_config := Some (no_config\<lparr>c_destination_port := Num 10001\<rparr>)\<rparr>]
     = Inr [ex_tellyo_intent\<lparr>o_tempPort := Some 10001\<rparr>]
   \<and> matchAll ''TypeError'' [''10001'' \<mapsto> 0] [ex_tellyo_intent\<lparr>o_tempPort := Some 10001\<rparr>]
       [no_entry\<lparr>e_id := Num 20, e_type := Some ''srt'',
          e_config := Some (no_config\<lparr>c_destination_port := Str ''constructor''\<rparr>)\<rparr>]
     = Inl ''TypeError''"
  by (simp add: matchStep_def roType_def roPort_def js_or_def propKey_def show_int_def decimal.simps
      inheritedKeys_def ex_output_def ex_tellyo_intent_def no_entry_def no_config_def)

text \<open>
  Claim C6, the failing input. The listener with id 20 on the provisional port 10001,
  reported in an array, gives the intent the id 20; the same entry reported in an object
  keyed by id is not walked (\<^verbatim>\<open>if (Array.isArray(reported))\<close>), and the intent keeps no id.
\<close>

theorem C6_outputs_object_unmatched:
  "snd (buildOutputs [] None (Num 10) (Num 11) [] [ex_tellyo_intent\<lparr>o_tempPort := Some 10001\<rparr>]) ''10001''
     = Some 0
   \<and> verifyOutputs ''TypeError'' [ex_shadow ''Outputs'' (Arr [ex_output 20 10001])]
       (snd (buildOutputs [] None (Num 10) (Num 11) [] [ex_tellyo_intent\<lparr>o_tempPort := Some 10001\<rparr>]))
       [ex_tellyo_intent\<lparr>o_tempPort := Some 10001\<rparr>]
     = Inr [ex_tellyo_intent\<lparr>o_tempPort := Some 10001, o_videonId := Num 20\<rparr>]
   \<and> verifyOutputs ''TypeError'' [ex_shadow ''Outputs'' (Obj [(''20'', ex_output 20 10001)])]
       (snd (buildOutputs [] None (Num 10) (Num 11) [] [ex_tellyo_intent\<lparr>o_tempPort := Some 10001\<rparr>]))
       [ex_tellyo_intent\<lparr>o_tempPort := Some 10001\<rparr>]
     = Inr [ex_tellyo_intent\<lparr>o_tempPort := Some 10001\<rparr>]
   \<and> stateItems (Obj [(''20'', ex_output 20 10001)]) = stateItems (Arr [ex_output 20 10001])"
proof -
  have pm: "snd (buildOutputs [] None (Num 10) (Num 11) [] [ex_tellyo_intent\<lparr>o_tempPort := Some 10001\<rparr>])
      = [''10001'' \<mapsto> 0]"
    by (simp add: buildOutputs_def outputStep_def isPlatform_def ex_tellyo_intent_def removeDeployed_def
        propKey_def tempPort_def show_int_def decimal.simps)
  have a: "matchAll ''TypeError'' [''10001'' \<mapsto> 0] [ex_tellyo_intent\<lparr>o_tempPort := Some 10001\<rparr>]
             [ex_output 20 10001]
     = Inr [ex_tellyo_intent\<lparr>o_tempPort := Some 10001, o_videonId := Num 20\<rparr>]"
    by (simp add: matchStep_def roType_def roPort_def js_or_def propKey_def show_int_def decimal.simps
        ex_output_def ex_tellyo_intent_def no_entry_def no_config_def)
  show ?thesis
    unfolding pm
    by (simp add: verifyOutputs_def getShadow_def ex_shadow_def a stateItems_def del: matchAll.simps)
qed

section \<open>Array and object shape of a shadow (claim C4)\<close>

lemma getShadow_arrayShaped:
  "getShadow (arrayShaped shadows) name
     = map_option (\<lambda>s. s\<lparr>reported_state := asArray (reported_state s)\<rparr>) (getShadow shadows name)"
  by (induction shadows) (simp_all add: getShadow_def arrayShaped_def)

lemma stateItems_asArray: "stateItems (asArray st) = stateItems st"
  by (cases st) (simp_all add: stateItems_def asArray_def)

lemma getItems_arrayShaped: "getItems (arrayShaped shadows) name = getItems shadows name"
  by (cases "getShadow shadows name")
     (simp_all add: getItems_def getShadow_arrayShaped stateItems_asArray)

text \<open>The encoder check reads the shadow through the normalisation only.\<close>

lemma verifyEncoders_shape_invariant:
  "verifyEncoders (arrayShaped shadows2) vName aName preV preA
     = verifyEncoders shadows2 vName aName preV preA"
  by (simp add: verifyEncoders_def findId2_def getItems_arrayShaped)

text \<open>
  Claim C4, the failing input. The same two listeners reported as an object keyed by id:
  the run completes, and no intent receives its output id.
\<close>

theorem C4_outputs_map_shape_unmatched:
  "map o_videonId (p_outputs (hd (profiles (handleConfigure ex_props ex_env ex_ui)))) = [Num 20, Num 21]
   \<and> map o_videonId (p_outputs (hd (profiles
        (handleConfigure ex_props (ex_env\<lparr>dev := ex_device\<lparr>finalShRes := ex_final_map\<rparr>\<rparr>) ex_ui))))
      = [Undefined, Undefined]
   \<and> arrayShaped (shadowsOf ex_final_map) = shadowsOf (finalShRes ex_device)"
proof (intro conjI)
  show "map o_videonId (p_outputs (hd (profiles (handleConfigure ex_props ex_env ex_ui)))) = [Num 20, Num 21]"
    by (simp add: ex_defs eval_defs)
  show "map o_videonId (p_outputs (hd (profiles
        (handleConfigure ex_props (ex_env\<lparr>dev := ex_device\<lparr>finalShRes := ex_final_map\<rparr>\<rparr>) ex_ui))))
      = [Undefined, Undefined]"
    by (simp add: ex_defs eval_defs ex_final_map_def)
  show "arrayShaped (shadowsOf ex_final_map) = shadowsOf (finalShRes ex_device)"
    by (simp add: arrayShaped_def asArray_def ex_final_map_def shadowsOf_def ex_device_def ex_shadow_def)
qed

section \<open>Failure and bypass (claim C7)\<close>

text \<open>
  Claim C7. When the device steps end with an exception: without the bypass the handler
  reports "Videon config failed", resets both downstream statuses to idle, changes no
  profile and makes no call beyond the device calls already made; with the bypass it
  records "Videon config failed (Bypassed)" and runs the downstream step on the intents
  with their provisional ports. In the downstream step the CLOUDPORT status and calls do
  not depend on what Tellyo answers, the Tellyo status and calls do not depend on what
  CLOUDPORT answers, and neither block touches the error text.
\<close>

theorem C7_failure_policy:
  "(cur pr u = Some c \<and> \<not> safeMode pr \<and> preAssignPorts 10001 (p_outputs c) = Inr newOutputs
      \<and> videonPhase pr (dev e) c newOutputs = (cs, Inl msg) \<longrightarrow>
      (if bypassVideonError pr
       then handleConfigure pr e u =
              configureDownstream pr e c newOutputs
                ((log_call cs (resetStatus (u\<lparr>ipModalOpen := False\<rparr>)))
                   \<lparr>err := ''Videon config failed (Bypassed): '' @ msg\<rparr>)
            \<and> err (handleConfigure pr e u) = ''Videon config failed (Bypassed): '' @ msg
       else calls (handleConfigure pr e u) = calls u @ cs
            \<and> err (handleConfigure pr e u) = ''Videon config failed: '' @ msg
            \<and> cloudStatus (handleConfigure pr e u) = setStatus Idle []
            \<and> tellyoStatus (handleConfigure pr e u) = setStatus Idle []
            \<and> profiles (handleConfigure pr e u) = profiles u))
   \<and> cloudStatus (configureDownstream pr (e\<lparr>tel := t'\<rparr>) c no u) = cloudStatus (configureDownstream pr e c no u)
   \<and> filter isCloudportCall (calls (configureDownstream pr (e\<lparr>tel := t'\<rparr>) c no u))
       = filter isCloudportCall (calls (configureDownstream pr e c no u))
   \<and> tellyoStatus (configureDownstream pr (e\<lparr>cp := cp'\<rparr>) c no u) = tellyoStatus (configureDownstream pr e c no u)
   \<and> filter isTellyoCall (calls (configureDownstream pr (e\<lparr>cp := cp'\<rparr>) c no u))
       = filter isTellyoCall (calls (configureDownstream pr e c no u))
   \<and> err (configureDownstream pr e c no u) = err u"
proof (intro conjI impI)
  assume a: "cur pr u = Some c \<and> \<not> safeMode pr \<and> preAssignPorts 10001 (p_outputs c) = Inr newOutputs
      \<and> videonPhase pr (dev e) c newOutputs = (cs, Inl msg)"
  then have h: "cur pr u = Some c" "\<not> safeMode pr" "preAssignPorts 10001 (p_outputs c) = Inr newOutputs"
    "videonPhase pr (dev e) c newOutputs = (cs, Inl msg)"
    by simp_all
  note hc = handleConfigure_device_failure[OF h]
  show "if bypassVideonError pr
       then handleConfigure pr e u =
              configureDownstream pr e c newOutputs
                ((log_call cs (resetStatus (u\<lparr>ipModalOpen := False\<rparr>)))
                   \<lparr>err := ''Videon config failed (Bypassed): '' @ msg\<rparr>)
            \<and> err (handleConfigure pr e u) = ''Videon config failed (Bypassed): '' @ msg
       else calls (handleConfigure pr e u) = calls u @ cs
            \<and> err (handleConfigure pr e u) = ''Videon config failed: '' @ msg
            \<and> cloudStatus (handleConfigure pr e u) = setStatus Idle []
            \<and> tellyoStatus (handleConfigure pr e u) = setStatus Idle []
            \<and> profiles (handleConfigure pr e u) = profiles u"
    unfolding hc
    by (simp add: configureDownstream_def configureCloudport_err configureTellyo_err
        log_call_def resetStatus_def)
next
  show "cloudStatus (configureDownstream pr (e\<lparr>tel := t'\<rparr>) c no u) = cloudStatus (configureDownstream pr e c no u)"
    by (simp add: configureDownstream_def) (rule configureCloudport_cloudStatus)
next
  have "\<And>t. filter isCloudportCall (calls (configureCloudport pr (cp e) c no (configureTellyo pr t c no u)))
        = filter isCloudportCall (calls u)
          @ filter isCloudportCall (calls (configureCloudport pr (cp e) c no (u\<lparr>calls := []\<rparr>)))"
    by (subst configureCloudport_calls[where u' = u]) (simp add: configureTellyo_only_tellyo_calls)
  then show "filter isCloudportCall (calls (configureDownstream pr (e\<lparr>tel := t'\<rparr>) c no u))
       = filter isCloudportCall (calls (configureDownstream pr e c no u))"
    by (simp add: configureDownstream_def)
next
  show "tellyoStatus (configureDownstream pr (e\<lparr>cp := cp'\<rparr>) c no u) = tellyoStatus (configureDownstream pr e c no u)"
    by (simp add: configureDownstream_def configureCloudport_tellyoStatus)
next
  show "filter isTellyoCall (calls (configureDownstream pr (e\<lparr>cp := cp'\<rparr>) c no u))
       = filter isTellyoCall (calls (configureDownstream pr e c no u))"
    by (simp add: configureDownstream_def configureCloudport_only_cloudport_calls)
next
  show "err (configureDownstream pr e c no u) = err u"
    by (simp add: configureDownstream_def configureCloudport_err configureTellyo_err)
qed

text \<open>
  A refused encoder write with and without the bypass, and a Tellyo registry that is down
  while CLOUDPORT is served.
\<close>

theorem C7_failure_policy_witness:
  "err (handleConfigure ex_props ex_conflict ex_ui) = ''Videon config failed: 409 Conflict''
   \<and> filter (\<lambda>x. isTellyoCall x \<or> isCloudportCall x) (calls (handleConfigure ex_props ex_conflict ex_ui)) = []
   \<and> err (handleConfigure ex_bypass_props ex_conflict ex_ui) = ''Videon config failed (Bypassed): 409 Conflict''
   \<and> filter (\<lambda>x. isTellyoCall x \<or> isCloudportCall x) (calls (handleConfigure ex_bypass_props ex_conflict ex_ui))
       = [TellyoListChannels,
          TellyoUpdateChannel (Num 7)
            \<lparr>tp_name = ''studio-a'', tp_profile = ''hd'', tp_streamUrl = Url ''srt://203.0.113.7:10001''\<rparr>,
          CloudportFetchByLabel ''studio-a'',
          CloudportUpdate (Num 5)
            \<lparr>cpp_ingest_label = ''studio-a'', cpp_stream_url = Some ''srt://203.0.113.7:10002'',
             cpp_always_on = False\<rparr>]
   \<and> tellyoStatus (configureDownstream ex_props (ex_env\<lparr>tel := ex_tellyo_down\<rparr>) ex_profile ex_assigned ex_ui)
       = setStatus Failure ''503 Service Unavailable''
   \<and> cloudStatus (configureDownstream ex_props (ex_env\<lparr>tel := ex_tellyo_down\<rparr>) ex_profile ex_assigned ex_ui)
       = setStatus Success ''Ingest updated''"
proof -
  let ?cs = "fst (videonPhase ex_props (dev ex_conflict) ex_profile ex_assigned)"
  have vp: "videonPhase ex_props (dev ex_conflict) ex_profile ex_assigned = (?cs, Inl ''409 Conflict'')"
    by (simp add: videonPhase_def ex_conflict_def ex_env_def ex_device_def Let_def)
  have vpb: "videonPhase ex_bypass_props (dev ex_conflict) ex_profile ex_assigned = (?cs, Inl ''409 Conflict'')"
    by (simp add: videonPhase_def ex_conflict_def ex_env_def ex_device_def Let_def)
  have cs: "filter (\<lambda>x. isTellyoCall x \<or> isCloudportCall x) ?cs = []"
    by (simp add: videonPhase_def ex_conflict_def ex_env_def ex_device_def Let_def)
  have c0: "cur ex_props ex_ui = Some ex_profile" "\<not> safeMode ex_props"
    "cur ex_bypass_props ex_ui = Some ex_profile" "\<not> safeMode ex_bypass_props"
    "\<not> bypassVideonError ex_props" "bypassVideonError ex_bypass_props"
    by (simp_all add: cur_def ex_bypass_props_def ex_props_def ex_ui_def ex_profile_def)
  have pa: "preAssignPorts 10001 (p_outputs ex_profile) = Inr ex_assigned"
    by (simp add: ex_profile_def ex_assigned_def isPlatform_def ex_tellyo_intent_def ex_cloudport_intent_def)
  note off = C7_failure_policy[where pr = ex_props and u = ex_ui and c = ex_profile
      and newOutputs = ex_assigned and e = ex_conflict and cs = ?cs and msg = "''409 Conflict''",
      THEN conjunct1]
  note on = C7_failure_policy[where pr = ex_bypass_props and u = ex_ui and c = ex_profile
      and newOutputs = ex_assigned and e = ex_conflict and cs = ?cs and msg = "''409 Conflict''",
      THEN conjunct1]
  note indep = C7_failure_policy[where pr = ex_props and u = ex_ui and c = ex_profile
      and no = ex_assigned and e = ex_env and t' = ex_tellyo_down,
      THEN conjunct2, THEN conjunct1]
  from off c0 pa vp
  have a: "err (handleConfigure ex_props ex_conflict ex_ui) = ''Videon config failed: 409 Conflict''"
    and b0: "calls (handleConfigure ex_props ex_conflict ex_ui) = calls ex_ui @ ?cs"
    by simp_all
  from b0 cs have b: "filter (\<lambda>x. isTellyoCall x \<or> isCloudportCall x)
      (calls (handleConfigure ex_props ex_conflict ex_ui)) = []"
    by (simp add: ex_ui_def)
  note on' = on[THEN mp, OF conjI[OF c0(3) conjI[OF c0(4) conjI[OF pa vpb]]], unfolded if_P[OF c0(6)]]
  note d0 = on'[THEN conjunct1]
  from on'[THEN conjunct2]
  have c: "err (handleConfigure ex_bypass_props ex_conflict ex_ui) = ''Videon config failed (Bypassed): 409 Conflict''"
    by simp
  have d1: "calls (configureDownstream ex_bypass_props ex_conflict ex_profile ex_assigned
                ((log_call ?cs (resetStatus (ex_ui\<lparr>ipModalOpen := False\<rparr>)))
                   \<lparr>err := ''Videon config failed (Bypassed): '' @ ''409 Conflict''\<rparr>))
        = ?cs @ [TellyoListChannels,
          TellyoUpdateChannel (Num 7)
            \<lparr>tp_name = ''studio-a'', tp_profile = ''hd'', tp_streamUrl = Url ''srt://203.0.113.7:10001''\<rparr>,
          Wait 1000, CloudportFetchByLabel ''studio-a'',
          CloudportUpdate (Num 5)
            \<lparr>cpp_ingest_label = ''studio-a'', cpp_stream_url = Some ''srt://203.0.113.7:10002'',
             cpp_always_on = False\<rparr>]"
    by (simp add: ex_defs eval_defs ex_bypass_props_def ex_conflict_def ex_assigned_def)
  have d: "filter (\<lambda>x. isTellyoCall x \<or> isCloudportCall x) (calls (handleConfigure ex_bypass_props ex_conflict ex_ui))
       = [TellyoListChannels,
          TellyoUpdateChannel (Num 7)
            \<lparr>tp_name = ''studio-a'', tp_profile = ''hd'', tp_streamUrl = Url ''srt://203.0.113.7:10001''\<rparr>,
          CloudportFetchByLabel ''studio-a'',
          CloudportUpdate (Num 5)
            \<lparr>cpp_ingest_label = ''studio-a'', cpp_stream_url = Some ''srt://203.0.113.7:10002'',
             cpp_always_on = False\<rparr>]"
    unfolding d0 d1 using cs by simp
  have e: "tellyoStatus (configureDownstream ex_props (ex_env\<lparr>tel := ex_tellyo_down\<rparr>) ex_profile ex_assigned ex_ui)
       = setStatus Failure ''503 Service Unavailable''"
    by (simp add: ex_defs eval_defs ex_assigned_def ex_tellyo_down_def)
  have "cloudStatus (configureDownstream ex_props ex_env ex_profile ex_assigned ex_ui)
       = setStatus Success ''Ingest updated''"
    by (simp add: ex_defs eval_defs ex_assigned_def)
  with indep have f: "cloudStatus (configureDownstream ex_props (ex_env\<lparr>tel := ex_tellyo_down\<rparr>) ex_profile ex_assigned ex_ui)
       = setStatus Success ''Ingest updated''"
    by simp
  from a b c d e f show ?thesis by (simp only: simp_thms)
qed

section \<open>Find, then update (claim C1)\<close>

lemma configureTellyo_found:
  assumes "filter (\<lambda>x. o_target x = ''Tellyo Studio'') no = outp # rest"
      and "o_tempPort outp = Some port" "port \<noteq> 0"
      and "ts_apiEndpoint (tellyoSettings pr) \<noteq> []" "ts_token (tellyoSettings pr) \<noteq> []"
      and "listChannels t = Inr channels"
      and "findChannel c (channelNameOf c) channels = Some ch"
      and "t_profile (p_tellyo c) \<noteq> []"
  shows "calls (configureTellyo pr t c no u) =
           calls u @ [TellyoListChannels,
                      TellyoUpdateChannel (ch_id ch)
                        \<lparr>tp_name = channelNameOf c, tp_profile = t_profile (p_tellyo c),
                         tp_streamUrl = Url (srtListener pr port)\<rparr>]"
proof -
  have ne: "srtListener pr port \<noteq> []" "trim (srtListener pr port) \<noteq> []"
    by (simp_all add: srtListener_def trim_def is_space_def)
  have payload: "buildTellyoChannelPayload
          ((p_tellyo c)\<lparr>t_channelName := channelNameOf c, t_streamUrl := srtListener pr port\<rparr>)
          (deviceIp pr) channels (ch_id ch)
        = Inr \<lparr>tp_name = channelNameOf c, tp_profile = t_profile (p_tellyo c),
               tp_streamUrl = Url (srtListener pr port)\<rparr>"
    using assms(8) ne by (simp add: buildTellyoChannelPayload_def)
  show ?thesis
    using assms payload
    by (simp add: configureTellyo_def Let_def log_call_def rememberChannel_def setProfiles_def
        srtListener_def split: option.splits)
qed

lemma configureTellyo_no_create:
  assumes "listChannels t = Inr channels"
      and "findChannel c (channelNameOf c) channels = Some ch"
  shows "list_all (\<lambda>x. \<not> isCreate x) (calls (configureTellyo pr t c no (u\<lparr>calls := []\<rparr>)))"
  using assms
  by (simp add: tellyo_unfold split: list.splits option.splits sum.splits)

lemma configureCloudport_found:
  assumes "filter (\<lambda>x. o_target x = ''Amagi CLOUDPORT'') no = outp # rest"
      and "o_tempPort outp = Some port" "port \<noteq> 0"
      and "cs_baseHost (cloudportSettings pr) \<noteq> []" "cs_userAuthToken (cloudportSettings pr) \<noteq> []"
      and "fetchIngests env = Inr ingests"
      and "cloudportFetchByLabel (ingestLabelOf c) ingests = Some ing"
  shows "calls (configureCloudport pr env c no u) =
           calls u @ [Wait 1000, CloudportFetchByLabel (ingestLabelOf c),
                      CloudportUpdate (js_or (in_id ing) (in_ingest_id ing))
                        \<lparr>cpp_ingest_label = ingestLabelOf c,
                         cpp_stream_url = Some (srtListener pr port),
                         cpp_always_on = cp_alwaysOn (p_cloudport c)\<rparr>]"
  using assms
  by (simp add: configureCloudport_def Let_def log_call_def rememberIngest_def setProfiles_def
      srtListener_def split: option.splits)

lemma configureCloudport_no_create:
  assumes "fetchIngests env = Inr ingests"
      and "cloudportFetchByLabel (ingestLabelOf c) ingests = Some ing"
  shows "list_all (\<lambda>x. \<not> isCreate x) (calls (configureCloudport pr env c no (u\<lparr>calls := []\<rparr>)))"
  using assms
  by (simp add: cloudport_unfold split: list.splits option.splits sum.splits)

lemma configureDownstream_labels:
  "map labels (profiles (configureDownstream pr e c no u)) = map labels (profiles u)"
  by (simp add: configureDownstream_def configureCloudport_labels configureTellyo_labels)

lemma handleConfigure_labels:
  "map labels (profiles (handleConfigure pr e u)) = map labels (profiles u)"
proof (cases "cur pr u")
  case None
  then show ?thesis by (simp add: handleConfigure_def)
next
  case (Some c)
  show ?thesis
  proof (cases "safeMode pr")
    case True
    then show ?thesis using Some by (simp add: handleConfigure_def writeBlocked_def)
  next
    case False
    show ?thesis
    proof (cases "preAssignPorts 10001 (p_outputs c)")
      case (Inl msg)
      then show ?thesis using Some False by (simp add: handleConfigure_def resetStatus_def)
    next
      case (Inr no)
      obtain cs r where vp: "videonPhase pr (dev e) c no = (cs, r)" by (cases "videonPhase pr (dev e) c no")
      show ?thesis
      proof (cases r)
        case (Inl msg)
        then show ?thesis
          using Some False Inr vp
          by (simp add: handleConfigure_def Let_def configureDownstream_labels log_call_def resetStatus_def)
      next
        case r: (Inr verified)
        have "map labels (profiles (setProfiles (p_id c) (\<lambda>p. p\<lparr>p_outputs := verified\<rparr>)
                 (log_call cs (resetStatus (u\<lparr>ipModalOpen := False\<rparr>))))) = map labels (profiles u)"
          by (simp add: setProfiles_def log_call_def resetStatus_def labels_def comp_def)
        then show ?thesis
          using Some False Inr vp r
          by (simp add: handleConfigure_def Let_def configureDownstream_labels)
      qed
    qed
  qed
qed

lemma find_by_id_labels:
  "map labels xs = map labels ys \<Longrightarrow> find_first (\<lambda>p. p_id p = k) xs = Some c
     \<Longrightarrow> \<exists>c1. find_first (\<lambda>p. p_id p = k) ys = Some c1 \<and> labels c1 = labels c"
proof (induction xs arbitrary: ys)
  case Nil
  then show ?case by simp
next
  case (Cons x xs)
  then obtain y ys' where ys: "ys = y # ys'" by (cases ys) auto
  with Cons.prems have l: "labels x = labels y" and rest: "map labels xs = map labels ys'" by simp_all
  from l have id: "p_id x = p_id y" by (simp add: labels_def)
  show ?case
  proof (cases "p_id x = k")
    case True
    with Cons.prems(2) have "c = x" by simp
    with True id l ys show ?thesis by simp
  next
    case False
    with Cons.prems(2) have "find_first (\<lambda>p. p_id p = k) xs = Some c" by simp
    from Cons.IH[OF rest this] False id ys show ?thesis by simp
  qed
qed

text \<open>A run leaves the selected profile's labels as they were: the next run looks up the same ones.\<close>

lemma labels_after_run:
  assumes "cur pr u = Some c"
  shows "\<exists>c1. cur pr (handleConfigure pr e u) = Some c1
           \<and> channelNameOf c1 = channelNameOf c \<and> ingestLabelOf c1 = ingestLabelOf c
           \<and> t_profile (p_tellyo c1) = t_profile (p_tellyo c)"
proof -
  from find_by_id_labels[OF handleConfigure_labels[symmetric], of "selPid pr" u c pr e] assms
  obtain c1 where c1: "cur pr (handleConfigure pr e u) = Some c1" and l: "labels c1 = labels c"
    by (auto simp: cur_def)
  from l have "channelNameOf c1 = channelNameOf c" "ingestLabelOf c1 = ingestLabelOf c"
    "t_profile (p_tellyo c1) = t_profile (p_tellyo c)"
    by (simp_all add: labels_def channelNameOf_def ingestLabelOf_def)
  with c1 show ?thesis by blast
qed

text \<open>
  Claim C1, as the code has it. When the lookup finds an entity, the downstream step
  updates it and never creates one. The Tellyo lookup is by the remembered channel id
  when the profile holds one and the registry lists a channel with that id, and by the
  channel name otherwise; for a profile with its Tellyo profile name set the calls are
  the listing and one update on the found channel's id, and whatever else holds, no
  create is among the calls once a channel is found. CLOUDPORT: the label query and one
  update on \<^verbatim>\<open>ingest.id || ingest.ingest_id\<close>, and likewise no create once an ingest is found.
  A run leaves the labels of the selected profile as they were, so a second run looks up
  the same labels and updates the entity the first run left in the registry.
\<close>

theorem C1_downstream_upsert:
  "(filter (\<lambda>x. o_target x = ''Tellyo Studio'') no = outp # rest
      \<and> o_tempPort outp = Some port \<and> port \<noteq> 0
      \<and> ts_apiEndpoint (tellyoSettings pr) \<noteq> [] \<and> ts_token (tellyoSettings pr) \<noteq> []
      \<and> listChannels t = Inr channels
      \<and> findChannel c (channelNameOf c) channels = Some ch
      \<and> t_profile (p_tellyo c) \<noteq> []
    \<longrightarrow> calls (configureTellyo pr t c no u) =
          calls u @ [TellyoListChannels,
                     TellyoUpdateChannel (ch_id ch)
                       \<lparr>tp_name = channelNameOf c, tp_profile = t_profile (p_tellyo c),
                        tp_streamUrl = Url (srtListener pr port)\<rparr>])
   \<and> (listChannels t = Inr channels \<and> findChannel c (channelNameOf c) channels = Some ch
    \<longrightarrow> (\<exists>ds. calls (configureTellyo pr t c no u) = calls u @ ds \<and> list_all (\<lambda>x. \<not> isCreate x) ds))
   \<and> (filter (\<lambda>x. o_target x = ''Amagi CLOUDPORT'') no = outq # rest'
      \<and> o_tempPort outq = Some port' \<and> port' \<noteq> 0
      \<and> cs_baseHost (cloudportSettings pr) \<noteq> [] \<and> cs_userAuthToken (cloudportSettings pr) \<noteq> []
      \<and> fetchIngests env = Inr ingests
      \<and> cloudportFetchByLabel (ingestLabelOf c) ingests = Some ing
    \<longrightarrow> calls (configureCloudport pr env c no u) =
          calls u @ [Wait 1000, CloudportFetchByLabel (ingestLabelOf c),
                     CloudportUpdate (js_or (in_id ing) (in_ingest_id ing))
                       \<lparr>cpp_ingest_label = ingestLabelOf c,
                        cpp_stream_url = Some (srtListener pr port'),
                        cpp_always_on = cp_alwaysOn (p_cloudport c)\<rparr>])
   \<and> (cur pr u = Some c
    \<longrightarrow> (\<exists>c1. cur pr (handleConfigure pr e u) = Some c1
           \<and> channelNameOf c1 = channelNameOf c \<and> ingestLabelOf c1 = ingestLabelOf c
           \<and> t_profile (p_tellyo c1) = t_profile (p_tellyo c)))
   \<and> (fetchIngests env = Inr ingests \<and> cloudportFetchByLabel (ingestLabelOf c) ingests = Some ing
    \<longrightarrow> (\<exists>ds. calls (configureCloudport pr env c no u) = calls u @ ds
           \<and> list_all (\<lambda>x. \<not> isCreate x) ds))
   \<and> findChannel c chName channels =
       (if truthy (t_lastChannelId (p_tellyo c))
           \<and> (\<exists>x\<in>set channels. ch_id x = t_lastChannelId (p_tellyo c))
        then find_first (\<lambda>x. ch_id x = t_lastChannelId (p_tellyo c)) channels
        else find_first (\<lambda>x. ch_name x = Some chName) channels)"
proof (intro conjI impI)
  assume "filter (\<lambda>x. o_target x = ''Tellyo Studio'') no = outp # rest
      \<and> o_tempPort outp = Some port \<and> port \<noteq> 0
      \<and> ts_apiEndpoint (tellyoSettings pr) \<noteq> [] \<and> ts_token (tellyoSettings pr) \<noteq> []
      \<and> listChannels t = Inr channels
      \<and> findChannel c (channelNameOf c) channels = Some ch
      \<and> t_profile (p_tellyo c) \<noteq> []"
  then show "calls (configureTellyo pr t c no u) =
          calls u @ [TellyoListChannels,
                     TellyoUpdateChannel (ch_id ch)
                       \<lparr>tp_name = channelNameOf c, tp_profile = t_profile (p_tellyo c),
                        tp_streamUrl = Url (srtListener pr port)\<rparr>]"
    by (elim conjE) (rule configureTellyo_found; assumption)
next
  assume a: "listChannels t = Inr channels \<and> findChannel c (channelNameOf c) channels = Some ch"
  have "calls (configureTellyo pr t c no u)
          = calls u @ calls (configureTellyo pr t c no (u\<lparr>calls := []\<rparr>))"
    by (rule configureTellyo_calls)
  moreover have "list_all (\<lambda>x. \<not> isCreate x) (calls (configureTellyo pr t c no (u\<lparr>calls := []\<rparr>)))"
    using a by (elim conjE) (rule configureTellyo_no_create; assumption)
  ultimately show "\<exists>ds. calls (configureTellyo pr t c no u) = calls u @ ds \<and> list_all (\<lambda>x. \<not> isCreate x) ds"
    by blast
next
  assume "filter (\<lambda>x. o_target x = ''Amagi CLOUDPORT'') no = outq # rest'
      \<and> o_tempPort outq = Some port' \<and> port' \<noteq> 0
      \<and> cs_baseHost (cloudportSettings pr) \<noteq> [] \<and> cs_userAuthToken (cloudportSettings pr) \<noteq> []
      \<and> fetchIngests env = Inr ingests
      \<and> cloudportFetchByLabel (ingestLabelOf c) ingests = Some ing"
  then show "calls (configureCloudport pr env c no u) =
          calls u @ [Wait 1000, CloudportFetchByLabel (ingestLabelOf c),
                     CloudportUpdate (js_or (in_id ing) (in_ingest_id ing))
                       \<lparr>cpp_ingest_label = ingestLabelOf c,
                        cpp_stream_url = Some (srtListener pr port'),
                        cpp_always_on = cp_alwaysOn (p_cloudport c)\<rparr>]"
    by (elim conjE) (rule configureCloudport_found; assumption)
next
  assume "cur pr u = Some c"
  then show "\<exists>c1. cur pr (handleConfigure pr e u) = Some c1
           \<and> channelNameOf c1 = channelNameOf c \<and> ingestLabelOf c1 = ingestLabelOf c
           \<and> t_profile (p_tellyo c1) = t_profile (p_tellyo c)"
    by (rule labels_after_run)
next
  assume a: "fetchIngests env = Inr ingests \<and> cloudportFetchByLabel (ingestLabelOf c) ingests = Some ing"
  have "calls (configureCloudport pr env c no u)
          = calls u @ calls (configureCloudport pr env c no (u\<lparr>calls := []\<rparr>))"
    by (rule configureCloudport_calls)
  moreover have "list_all (\<lambda>x. \<not> isCreate x) (calls (configureCloudport pr env c no (u\<lparr>calls := []\<rparr>)))"
    using a by (elim conjE) (rule configureCloudport_no_create; assumption)
  ultimately show "\<exists>ds. calls (configureCloudport pr env c no u) = calls u @ ds
           \<and> list_all (\<lambda>x. \<not> isCreate x) ds"
    by blast
next
  show "findChannel c chName channels =
       (if truthy (t_lastChannelId (p_tellyo c))
           \<and> (\<exists>x\<in>set channels. ch_id x = t_lastChannelId (p_tellyo c))
        then find_first (\<lambda>x. ch_id x = t_lastChannelId (p_tellyo c)) channels
        else find_first (\<lambda>x. ch_name x = Some chName) channels)"
    by (auto simp: findChannel_def find_first_None dest: find_first_Some split: option.splits)
qed

text \<open>
  The example profile against registries that hold its entities, and two runs in a row: the
  first against empty registries creates and remembers the ids 7 and 5 of what it created,
  the second against the registries holding those entities updates them.
\<close>

theorem C1_downstream_upsert_witness:
  "calls (configureTellyo ex_props (tel ex_env) ex_profile ex_assigned ex_ui)
     = [TellyoListChannels,
        TellyoUpdateChannel (Num 7)
          \<lparr>tp_name = ''studio-a'', tp_profile = ''hd'', tp_streamUrl = Url ''srt://203.0.113.7:10001''\<rparr>]
   \<and> calls (configureCloudport ex_props (cp ex_env) ex_profile ex_assigned ex_ui)
     = [Wait 1000, CloudportFetchByLabel ''studio-a'',
        CloudportUpdate (Num 5)
          \<lparr>cpp_ingest_label = ''studio-a'', cpp_stream_url = Some ''srt://203.0.113.7:10002'',
           cpp_always_on = False\<rparr>]
   \<and> map_option channelNameOf (cur ex_props ex_first_run) = Some ''studio-a''
   \<and> map_option ingestLabelOf (cur ex_props ex_first_run) = Some ''studio-a''
   \<and> map_option (\<lambda>p. (t_lastChannelId (p_tellyo p), cp_lastIngestId (p_cloudport p)))
         (cur ex_props ex_first_run) = Some (Num 7, Num 5)
   \<and> filter (\<lambda>x. isTellyoCall x \<or> isCloudportCall x) (calls ex_first_run)
     = [TellyoListChannels,
        TellyoCreateChannel
          \<lparr>tp_name = ''studio-a'', tp_profile = ''hd'', tp_streamUrl = Url ''srt://203.0.113.7:10001''\<rparr>,
        CloudportFetchByLabel ''studio-a'',
        CloudportCreate
          \<lparr>cpp_ingest_label = ''studio-a'', cpp_stream_url = Some ''srt://203.0.113.7:10002'',
           cpp_always_on = False\<rparr>]
   \<and> filter (\<lambda>x. isTellyoCall x \<or> isCloudportCall x)
       (calls (handleConfigure ex_props ex_env (ex_first_run\<lparr>calls := []\<rparr>)))
     = [TellyoListChannels,
        TellyoUpdateChannel (Num 7)
          \<lparr>tp_name = ''studio-a'', tp_profile = ''hd'', tp_streamUrl = Url ''srt://203.0.113.7:10001''\<rparr>,
        CloudportFetchByLabel ''studio-a'',
        CloudportUpdate (Num 5)
          \<lparr>cpp_ingest_label = ''studio-a'', cpp_stream_url = Some ''srt://203.0.113.7:10002'',
           cpp_always_on = False\<rparr>]"
proof -
  note t = C1_downstream_upsert[where pr = ex_props and t = "tel ex_env" and env = "cp ex_env" and c = ex_profile
      and no = ex_assigned and u = ex_ui and e = ex_env_first
      and outp = "ex_tellyo_intent\<lparr>o_tempPort := Some 10001\<rparr>" and rest = "[]" and port = 10001
      and outq = "ex_cloudport_intent\<lparr>o_tempPort := Some 10002\<rparr>" and rest' = "[]" and port' = 10002
      and channels = "[\<lparr>ch_id = Num 7, ch_name = Some ''studio-a'', ch_streamUrl = None\<rparr>]"
      and ch = "\<lparr>ch_id = Num 7, ch_name = Some ''studio-a'', ch_streamUrl = None\<rparr>"
      and ingests = "[\<lparr>in_id = Num 5, in_ingest_id = Undefined, in_label = ''studio-a''\<rparr>]"
      and ing = "\<lparr>in_id = Num 5, in_ingest_id = Undefined, in_label = ''studio-a''\<rparr>"]
  note name_eval = channelNameOf_def ingestLabelOf_def sanitizeLabel_def trim_def is_space_def
    to_lower_def capitals_def smalls_def is_label_char_def ex_profile_def
  have nm: "channelNameOf ex_profile = ''studio-a''" "ingestLabelOf ex_profile = ''studio-a''"
    by (simp_all add: name_eval)
  have url: "srtListener ex_props 10001 = ''srt://203.0.113.7:10001''"
    "srtListener ex_props 10002 = ''srt://203.0.113.7:10002''"
    by (simp_all add: srtListener_def show_int_def decimal.simps ex_props_def)
  have h1: "filter (\<lambda>x. o_target x = ''Tellyo Studio'') ex_assigned = [ex_tellyo_intent\<lparr>o_tempPort := Some 10001\<rparr>]"
    "filter (\<lambda>x. o_target x = ''Amagi CLOUDPORT'') ex_assigned = [ex_cloudport_intent\<lparr>o_tempPort := Some 10002\<rparr>]"
    by (simp_all add: ex_assigned_def ex_tellyo_intent_def ex_cloudport_intent_def)
  have h2: "ts_apiEndpoint (tellyoSettings ex_props) \<noteq> []" "ts_token (tellyoSettings ex_props) \<noteq> []"
    "cs_baseHost (cloudportSettings ex_props) \<noteq> []" "cs_userAuthToken (cloudportSettings ex_props) \<noteq> []"
    by (simp_all add: ex_props_def)
  have h3: "listChannels (tel ex_env) = Inr [\<lparr>ch_id = Num 7, ch_name = Some ''studio-a'', ch_streamUrl = None\<rparr>]"
    "fetchIngests (cp ex_env) = Inr [\<lparr>in_id = Num 5, in_ingest_id = Undefined, in_label = ''studio-a''\<rparr>]"
    by (simp_all add: ex_env_def)
  have h4: "findChannel ex_profile (channelNameOf ex_profile)
              [\<lparr>ch_id = Num 7, ch_name = Some ''studio-a'', ch_streamUrl = None\<rparr>]
            = Some \<lparr>ch_id = Num 7, ch_name = Some ''studio-a'', ch_streamUrl = None\<rparr>"
    unfolding nm by (simp add: findChannel_def ex_profile_def)
  have h5: "cloudportFetchByLabel (ingestLabelOf ex_profile)
              [\<lparr>in_id = Num 5, in_ingest_id = Undefined, in_label = ''studio-a''\<rparr>]
            = Some \<lparr>in_id = Num 5, in_ingest_id = Undefined, in_label = ''studio-a''\<rparr>"
    unfolding nm by (simp add: cloudportFetchByLabel_def)
  have h6: "t_profile (p_tellyo ex_profile) = ''hd''" "cp_alwaysOn (p_cloudport ex_profile) = False"
    "cur ex_props ex_ui = Some ex_profile"
    by (simp_all add: ex_profile_def cur_def ex_props_def ex_ui_def)
  have a: "calls (configureTellyo ex_props (tel ex_env) ex_profile ex_assigned ex_ui)
     = [TellyoListChannels,
        TellyoUpdateChannel (Num 7)
          \<lparr>tp_name = ''studio-a'', tp_profile = ''hd'', tp_streamUrl = Url ''srt://203.0.113.7:10001''\<rparr>]"
    using t[THEN conjunct1] h1 h2 h3 h4 h6 by (simp add: nm url ex_ui_def)
  have b: "calls (configureCloudport ex_props (cp ex_env) ex_profile ex_assigned ex_ui)
     = [Wait 1000, CloudportFetchByLabel ''studio-a'',
        CloudportUpdate (Num 5)
          \<lparr>cpp_ingest_label = ''studio-a'', cpp_stream_url = Some ''srt://203.0.113.7:10002'',
           cpp_always_on = False\<rparr>]"
    using t[THEN conjunct2, THEN conjunct2, THEN conjunct1] h1 h2 h3 h5 h6
    by (simp add: nm url ex_ui_def js_or_def)
  from t[THEN conjunct2, THEN conjunct2, THEN conjunct2, THEN conjunct1] h6(3)
  obtain c1 where "cur ex_props (handleConfigure ex_props ex_env_first ex_ui) = Some c1"
    "channelNameOf c1 = channelNameOf ex_profile" "ingestLabelOf c1 = ingestLabelOf ex_profile"
    by blast
  then have c: "map_option channelNameOf (cur ex_props ex_first_run) = Some ''studio-a''"
    and d: "map_option ingestLabelOf (cur ex_props ex_first_run) = Some ''studio-a''"
    by (simp_all add: nm ex_first_run_def)
  have e: "filter (\<lambda>x. isTellyoCall x \<or> isCloudportCall x) (calls ex_first_run)
     = [TellyoListChannels,
        TellyoCreateChannel
          \<lparr>tp_name = ''studio-a'', tp_profile = ''hd'', tp_streamUrl = Url ''srt://203.0.113.7:10001''\<rparr>,
        CloudportFetchByLabel ''studio-a'',
        CloudportCreate
          \<lparr>cpp_ingest_label = ''studio-a'', cpp_stream_url = Some ''srt://203.0.113.7:10002'',
           cpp_always_on = False\<rparr>]"
    by (simp add: ex_first_run_def ex_env_first_def ex_defs eval_defs)
  have f: "filter (\<lambda>x. isTellyoCall x \<or> isCloudportCall x)
       (calls (handleConfigure ex_props ex_env (ex_first_run\<lparr>calls := []\<rparr>)))
     = [TellyoListChannels,
        TellyoUpdateChannel (Num 7)
          \<lparr>tp_name = ''studio-a'', tp_profile = ''hd'', tp_streamUrl = Url ''srt://203.0.113.7:10001''\<rparr>,
        CloudportFetchByLabel ''studio-a'',
        CloudportUpdate (Num 5)
          \<lparr>cpp_ingest_label = ''studio-a'', cpp_stream_url = Some ''srt://203.0.113.7:10002'',
           cpp_always_on = False\<rparr>]"
    by (simp add: ex_first_run_def ex_env_first_def ex_defs eval_defs)
  have g: "map_option (\<lambda>p. (t_lastChannelId (p_tellyo p), cp_lastIngestId (p_cloudport p)))
         (cur ex_props ex_first_run) = Some (Num 7, Num 5)"
    by (simp add: ex_first_run_def ex_env_first_def ex_defs eval_defs)
  from a b c d e f g show ?thesis by (simp only: simp_thms)
qed

text \<open>
  Where the claim as worded fails. The label of the profile finds channel 7 (as the
  lookup of a profile that remembers no id does), but the profile remembers channel 9:
  the update goes to channel 9, which takes the name \<^verbatim>\<open>studio-a\<close> beside channel 7.
\<close>

theorem C1_remembered_id_counterexample:
  "channelNameOf ex_remembered = ''studio-a''
   \<and> findChannel ex_profile ''studio-a''
         [\<lparr>ch_id = Num 7, ch_name = Some ''studio-a'', ch_streamUrl = None\<rparr>,
          \<lparr>ch_id = Num 9, ch_name = Some ''other'', ch_streamUrl = None\<rparr>]
       = Some \<lparr>ch_id = Num 7, ch_name = Some ''studio-a'', ch_streamUrl = None\<rparr>
   \<and> calls (configureTellyo ex_props ex_two_channels ex_remembered ex_assigned ex_ui)
       = [TellyoListChannels,
          TellyoUpdateChannel (Num 9)
            \<lparr>tp_name = ''studio-a'', tp_profile = ''hd'', tp_streamUrl = Url ''srt://203.0.113.7:10001''\<rparr>]"
  by (simp add: ex_remembered_def ex_two_channels_def ex_assigned_def ex_defs eval_defs)

end
